theory Spec2Isabelle
  imports Complex_Main
begin

section \<open>JavaScript values\<close>

text \<open>
  The engine is the TypeScript class \<open>AstrologyService\<close>
  (\<open>src/services/astrology.service.ts\<close>). Its \<open>number\<close>s are IEEE doubles; here
  they are exact: a value that the code only ever produces as an integer
  (\<open>Math.floor\<close>, array indices, calendar fields, time values) is an \<open>int\<close>, any other
  number is a \<open>real\<close>, and rounding of intermediate results is not modelled, with one
  exception: \<open>normalize_double\<close> below is \<open>normalize\<close> with its addition rounded
  as the program rounds it. Where
  the code can read \<open>undefined\<close> (an array index out of range, a key missing from an
  object literal) or compute \<open>NaN\<close>, the value is an \<open>option\<close> and \<open>None\<close> stands
  for \<open>undefined\<close> or \<open>NaN\<close>. Object literals are read as finite maps; keys inherited
  from \<open>Object.prototype\<close> are not modelled.
\<close>

definition trunc :: "real \<Rightarrow> int" where
  \<comment> \<open>rounding towards zero\<close>
  "trunc x = (if 0 \<le> x then \<lfloor>x\<rfloor> else - \<lfloor>- x\<rfloor>)"

definition fmod :: "real \<Rightarrow> real \<Rightarrow> real" where
  \<comment> \<open>the operator \<open>%\<close> on numbers: the remainder has the sign of the dividend\<close>
  "fmod x y = x - y * of_int (trunc (x / y))"

definition irem :: "int \<Rightarrow> int \<Rightarrow> int" where
  \<comment> \<open>the operator \<open>%\<close> on integer-valued numbers\<close>
  "irem a b = sgn a * (\<bar>a\<bar> mod \<bar>b\<bar>)"

definition elem_at :: "'a list \<Rightarrow> int \<Rightarrow> 'a option" where
  \<comment> \<open>\<open>xs[i]\<close>: \<open>undefined\<close> outside the array\<close>
  "elem_at xs i = (if 0 \<le> i \<and> i < int (length xs) then Some (xs ! nat i) else None)"

section \<open>The static tables\<close>

definition SIGNS :: "string list" where
  "SIGNS = [''Mesha'', ''Vrishabha'', ''Mithuna'', ''Karkataka'', ''Simha'', ''Kanya'',
            ''Tula'', ''Vrischika'', ''Dhanu'', ''Makara'', ''Kumbha'', ''Meena'']"

definition NAKSHATRAS :: "string list" where
  "NAKSHATRAS =
    [''Ashwini'', ''Bharani'', ''Krittika'', ''Rohini'', ''Mrigashira'', ''Ardra'',
     ''Punarvasu'', ''Pushya'', ''Ashlesha'',
     ''Magha'', ''Purva Phalguni'', ''Uttara Phalguni'', ''Hasta'', ''Chitra'', ''Swati'',
     ''Vishakha'', ''Anuradha'', ''Jyeshtha'',
     ''Mula'', ''Purva Ashadha'', ''Uttara Ashadha'', ''Shravana'', ''Dhanishta'',
     ''Shatabhisha'', ''Purva Bhadrapada'', ''Uttara Bhadrapada'', ''Revati'']"

definition NAKSHATRA_LORDS :: "string list" where
  "NAKSHATRA_LORDS =
    [''Ketu'', ''Shukra'', ''Surya'', ''Chandra'', ''Kuja'', ''Rahu'', ''Guru'', ''Shani'',
     ''Budha'']"

definition DASHA_YEARS :: "string \<rightharpoonup> int" where
  "DASHA_YEARS = map_of
    [(''Ketu'', 7), (''Shukra'', 20), (''Surya'', 6), (''Chandra'', 10), (''Kuja'', 7),
     (''Rahu'', 18), (''Guru'', 16), (''Shani'', 19), (''Budha'', 17)]"

definition RASI_LORDS :: "string \<rightharpoonup> string" where
  "RASI_LORDS = map_of
    [(''Mesha'', ''Kuja''), (''Vrishabha'', ''Shukra''), (''Mithuna'', ''Budha''),
     (''Karkataka'', ''Chandra''), (''Simha'', ''Surya''), (''Kanya'', ''Budha''),
     (''Tula'', ''Shukra''), (''Vrischika'', ''Kuja''), (''Dhanu'', ''Guru''),
     (''Makara'', ''Shani''), (''Kumbha'', ''Shani''), (''Meena'', ''Guru'')]"

definition PLANET_NAME_MAP :: "string \<rightharpoonup> string" where
  "PLANET_NAME_MAP = map_of
    [(''Sun'', ''Surya''), (''Moon'', ''Chandra''), (''Mars'', ''Kuja''),
     (''Mercury'', ''Budha''), (''Jupiter'', ''Guru''), (''Venus'', ''Shukra''),
     (''Saturn'', ''Shani''), (''Rahu'', ''Rahu''), (''Ketu'', ''Ketu''),
     (''Ascendant'', ''Lagna'')]"

section \<open>Chart points\<close>

definition normalize :: "real \<Rightarrow> real" where
  \<comment> \<open>in exact arithmetic\<close>
  "normalize deg = (let d = fmod deg 360 in if d < 0 then d + 360 else d)"

text \<open>
  The program evaluates \<open>normalize\<close> on doubles. Of its three operations the remainder
  \<open>deg % 360\<close> and the comparison \<open>d < 0\<close> are exact on doubles; the sum \<open>d + 360\<close> is
  the exact sum rounded to the nearest double, ties to the even significand
  (\<open>Number::add\<close> of ECMA-262, IEEE 754 binary64). \<open>binary64 x\<close> is that rounding for
  \<open>x\<close> of normal magnitude (\<open>2^-1022 \<le> |x| < 2^1024\<close>): a double there is a multiple
  of \<open>2^(e-52)\<close>, where \<open>2^e \<le> |x| < 2^(e+1)\<close>. \<open>normalize_double\<close> is \<open>normalize\<close> as the
  program computes it on an argument that is a double.
\<close>

definition round_even :: "real \<Rightarrow> int" where
  \<comment> \<open>the nearest integer, a tie going to the even one\<close>
  "round_even x =
     (let f = \<lfloor>x\<rfloor>; r = x - of_int f
      in if r < 1 / 2 then f else if 1 / 2 < r then f + 1 else if even f then f else f + 1)"

definition binary64 :: "real \<Rightarrow> real" where
  "binary64 x =
     (if x = 0 then 0
      else let u = 2 powr (of_int \<lfloor>log 2 \<bar>x\<bar>\<rfloor> - 52) in of_int (round_even (x / u)) * u)"

definition normalize_double :: "real \<Rightarrow> real" where
  "normalize_double deg = (let d = fmod deg 360 in if d < 0 then binary64 (d + 360) else d)"

record rule =
  ex :: string
  deb :: string
  own :: "string list"

definition rules :: "string \<rightharpoonup> rule" where
  \<comment> \<open>the table local to \<open>calculateDignity\<close>\<close>
  "rules = map_of
    [(''Surya'', \<lparr>ex = ''Mesha'', deb = ''Tula'', own = [''Simha'']\<rparr>),
     (''Chandra'', \<lparr>ex = ''Vrishabha'', deb = ''Vrischika'', own = [''Karkataka'']\<rparr>),
     (''Kuja'', \<lparr>ex = ''Makara'', deb = ''Karkataka'', own = [''Mesha'', ''Vrischika'']\<rparr>),
     (''Budha'', \<lparr>ex = ''Kanya'', deb = ''Meena'', own = [''Mithuna'', ''Kanya'']\<rparr>),
     (''Guru'', \<lparr>ex = ''Karkataka'', deb = ''Makara'', own = [''Dhanu'', ''Meena'']\<rparr>),
     (''Shukra'', \<lparr>ex = ''Meena'', deb = ''Kanya'', own = [''Vrishabha'', ''Tula'']\<rparr>),
     (''Shani'', \<lparr>ex = ''Tula'', deb = ''Mesha'', own = [''Makara'', ''Kumbha'']\<rparr>),
     (''Rahu'', \<lparr>ex = ''Vrishabha'', deb = ''Vrischika'', own = [''Kumbha'']\<rparr>),
     (''Ketu'', \<lparr>ex = ''Vrischika'', deb = ''Vrishabha'', own = [''Vrischika'']\<rparr>),
     (''Lagna'', \<lparr>ex = '''', deb = '''', own = []\<rparr>)]"

definition calculateDignity :: "string \<Rightarrow> string option \<Rightarrow> string" where
  \<comment> \<open>the sign is \<open>SIGNS[signIndex]\<close>, which can be \<open>undefined\<close>\<close>
  "calculateDignity planet sgn_name =
     (case rules planet of
        None \<Rightarrow> ''-''
      | Some r \<Rightarrow>
          if sgn_name = Some (ex r) then ''Exalted''
          else if sgn_name = Some (deb r) then ''Debilitated''
          else if (case sgn_name of None \<Rightarrow> False | Some s \<Rightarrow> s \<in> set (own r))
            then ''Own Sign''
          else ''Neutral'')"

definition calculateNavamsaIndex :: "real \<Rightarrow> int" where
  "calculateNavamsaIndex lon =
     (let minutes = lon * 60;
          pada = \<lfloor>minutes / 200\<rfloor>
      in irem pada 12)"

record PlanetData =
  name :: string
  sign :: "string option"
  signId :: int
  nakshatra :: string
  nakshatraLord :: "string option"
  rasiLord :: string
  dignity :: string
  isRetrograde :: bool
  longitude :: real
  house :: int
  navamsaSign :: "string option"

text \<open>
  \<open>formatPlanet\<close> builds one chart point. The two display strings \<open>degree\<close> and
  \<open>position\<close> (the output of \<open>toDMS\<close>) are left out of the record; every other field
  is computed as in the source. \<open>x || y\<close> yields \<open>y\<close> exactly when \<open>x\<close> is
  \<open>undefined\<close> here, since no table holds an empty string as a value.
\<close>

definition formatPlanet :: "string \<Rightarrow> real \<Rightarrow> bool \<Rightarrow> real \<Rightarrow> PlanetData" where
  "formatPlanet englishName lon isRetro ascLon =
     (let nm = (case PLANET_NAME_MAP englishName of None \<Rightarrow> englishName | Some n \<Rightarrow> n);
          signIndex = \<lfloor>lon / 30\<rfloor>;
          sg = elem_at SIGNS signIndex;
          nakshatraIndex = \<lfloor>lon / 13.3333333\<rfloor>;
          nak = (case elem_at NAKSHATRAS nakshatraIndex of None \<Rightarrow> ''Unknown'' | Some n \<Rightarrow> n);
          lordIndex = irem nakshatraIndex 9;
          nakLord = elem_at NAKSHATRA_LORDS lordIndex;
          rLord = (case sg of
                     None \<Rightarrow> ''-''
                   | Some s \<Rightarrow> (case RASI_LORDS s of None \<Rightarrow> ''-'' | Some l \<Rightarrow> l));
          dign = calculateDignity nm sg;
          adjLon = lon - (ascLon - 15);
          adjLon = (if adjLon < 0 then adjLon + 360 else adjLon);
          adjLon = fmod adjLon 360;
          hs = \<lfloor>adjLon / 30\<rfloor> + 1;
          navamsaSignIndex = calculateNavamsaIndex lon
      in \<lparr>name = nm, sign = sg, signId = signIndex + 1, nakshatra = nak,
          nakshatraLord = nakLord, rasiLord = rLord, dignity = dign,
          isRetrograde = isRetro, longitude = lon, house = hs,
          navamsaSign = elem_at SIGNS navamsaSignIndex\<rparr>)"

section \<open>The ephemeris adapter and the positions\<close>

text \<open>
  The library \<open>astronomy-engine\<close> is outside the repository; the three things read from
  it are parameters, each a function of the time value (milliseconds since the epoch) of
  the instant: \<open>SiderealTime\<close> is \<open>Astronomy.SiderealTime(Astronomy.MakeTime(date))\<close>,
  \<open>EclipticLon b\<close> is \<open>Astronomy.Ecliptic(Astronomy.GeoVector(b, time, true)).elon\<close>
  and \<open>ut\<close> is the field \<open>ut\<close> of \<open>Astronomy.MakeTime(date)\<close>. A body is named by its
  key in \<open>bodyMap\<close>. \<open>calculatePositions\<close> is only called with a valid date, so its
  date is a time value.
\<close>

record Ephemeris =
  SiderealTime :: "int \<Rightarrow> real"
  EclipticLon :: "string \<Rightarrow> int \<Rightarrow> real"
  ut :: "int \<Rightarrow> real"

definition atan2 :: "real \<Rightarrow> real \<Rightarrow> real" where
  \<comment> \<open>\<open>Math.atan2(y, x)\<close>\<close>
  "atan2 y x =
     (if 0 < x then arctan (y / x)
      else if x < 0 \<and> 0 \<le> y then arctan (y / x) + pi
      else if x < 0 \<and> y < 0 then arctan (y / x) - pi
      else if 0 < y then pi / 2
      else if y < 0 then - (pi / 2)
      else 0)"

definition bodyMap :: "string list" where
  \<comment> \<open>the keys of \<open>bodyMap\<close>, in the order of \<open>Object.entries\<close>\<close>
  "bodyMap = [''Sun'', ''Moon'', ''Mars'', ''Mercury'', ''Jupiter'', ''Venus'', ''Saturn'']"

definition calculatePositions ::
  "Ephemeris \<Rightarrow> int \<Rightarrow> real \<Rightarrow> real \<Rightarrow> real \<Rightarrow> PlanetData list" where
  "calculatePositions eph date lat lon ayanamsa =
     (let gmst = SiderealTime eph date;
          lmstHours = gmst + lon / 15;
          lmstDeg = fmod (lmstHours * 15) 360;
          eps = 23.44 * (pi / 180);
          ramc = lmstDeg * (pi / 180);
          latRad = lat * (pi / 180);
          num = cos ramc;
          den = - sin ramc * cos eps - tan latRad * sin eps;
          ascRad = atan2 num den;
          ascDeg = ascRad * (180 / pi);
          ascDeg = normalize ascDeg;
          siderealAsc = normalize (ascDeg - ayanamsa);
          planets = map (\<lambda>englishName.
            let tropical = EclipticLon eph englishName date;
                siderealLon = normalize (tropical - ayanamsa);
                isRetro =
                  (if englishName \<noteq> ''Sun'' \<and> englishName \<noteq> ''Moon'' then
                     (let tropicalPrev = EclipticLon eph englishName (date - 3600000);
                          diff = tropical - tropicalPrev;
                          diff = (if diff < - 180 then diff + 360 else diff);
                          diff = (if diff > 180 then diff - 360 else diff)
                      in diff < 0)
                   else False)
            in formatPlanet englishName siderealLon isRetro siderealAsc) bodyMap;
          jd = ut eph date + 2451545;
          T = (jd - 2451545) / 36525;
          meanNodeLon =
            normalize (125.04452 - 1934.136261 * T + 0.0020708 * T * T + (T * T * T) / 450000);
          siderealRahu = normalize (meanNodeLon - ayanamsa);
          siderealKetu = normalize (siderealRahu + 180)
      in planets @
         [formatPlanet ''Rahu'' siderealRahu True siderealAsc,
          formatPlanet ''Ketu'' siderealKetu True siderealAsc,
          formatPlanet ''Ascendant'' siderealAsc False siderealAsc])"

definition wrap180 :: "real \<Rightarrow> real" where
  \<comment> \<open>the adjustment of section 4.2 of the specification, in its words: a difference
      of two longitudes in \<open>[0, 360)\<close> is moved by \<open>\<plusminus>360\<close> into \<open>(-180, 180]\<close>\<close>
  "wrap180 diff = (if diff \<le> - 180 then diff + 360 else if 180 < diff then diff - 360 else diff)"

section \<open>Dates\<close>

text \<open>
  A \<open>Date\<close> is its time value, an integral number of milliseconds since the epoch, or
  \<open>None\<close> for an invalid date. The calendar functions are those of ECMA-262
  (\<open>Day\<close>, \<open>DayFromYear\<close>, \<open>YearFromTime\<close>, \<open>MonthFromTime\<close>, \<open>DateFromTime\<close>,
  \<open>MakeDay\<close>, \<open>MakeDate\<close>, \<open>TimeClip\<close>); \<open>YearFromTime\<close>, there the largest year that
  starts at or before the instant, is computed from an estimate that is at most one year
  off. Local time is UTC plus a fixed offset \<open>tza\<close> in milliseconds, the first argument
  of every function that reads calendar fields; daylight saving time is not modelled.
\<close>

type_synonym Date = "int option"

definition TimeClip :: "real \<Rightarrow> Date" where
  "TimeClip t = (if \<bar>t\<bar> \<le> 8640000000000000 then Some (trunc t) else None)"

definition msPerDay :: int where
  "msPerDay = 86400000"

definition Day :: "int \<Rightarrow> int" where
  "Day t = t div msPerDay"

definition DaysInYear :: "int \<Rightarrow> int" where
  "DaysInYear yr =
     (if yr mod 4 \<noteq> 0 then 365 else if yr mod 100 \<noteq> 0 then 366
      else if yr mod 400 \<noteq> 0 then 365 else 366)"

definition DayFromYear :: "int \<Rightarrow> int" where
  "DayFromYear yr =
     365 * (yr - 1970) + (yr - 1969) div 4 - (yr - 1901) div 100 + (yr - 1601) div 400"

definition YearFromTime :: "int \<Rightarrow> int" where
  "YearFromTime t =
     (let dy = Day t;
          y0 = 1970 + (400 * dy) div 146097
      in if dy < DayFromYear y0 then y0 - 1
         else if DayFromYear (y0 + 1) \<le> dy then y0 + 1
         else y0)"

definition InLeapYear :: "int \<Rightarrow> int" where
  "InLeapYear t = (if DaysInYear (YearFromTime t) = 366 then 1 else 0)"

definition DayWithinYear :: "int \<Rightarrow> int" where
  "DayWithinYear t = Day t - DayFromYear (YearFromTime t)"

definition MonthFromTime :: "int \<Rightarrow> int" where
  "MonthFromTime t =
     (let dw = DayWithinYear t; lp = InLeapYear t
      in if dw < 31 then 0
         else if dw < 59 + lp then 1
         else if dw < 90 + lp then 2
         else if dw < 120 + lp then 3
         else if dw < 151 + lp then 4
         else if dw < 181 + lp then 5
         else if dw < 212 + lp then 6
         else if dw < 243 + lp then 7
         else if dw < 273 + lp then 8
         else if dw < 304 + lp then 9
         else if dw < 334 + lp then 10
         else 11)"

definition DateFromTime :: "int \<Rightarrow> int" where
  "DateFromTime t =
     (let dw = DayWithinYear t; lp = InLeapYear t; mt = MonthFromTime t
      in if mt = 0 then dw + 1
         else if mt = 1 then dw - 30
         else if mt = 2 then dw - 58 - lp
         else if mt = 3 then dw - 89 - lp
         else if mt = 4 then dw - 119 - lp
         else if mt = 5 then dw - 150 - lp
         else if mt = 6 then dw - 180 - lp
         else if mt = 7 then dw - 211 - lp
         else if mt = 8 then dw - 242 - lp
         else if mt = 9 then dw - 272 - lp
         else if mt = 10 then dw - 303 - lp
         else dw - 333 - lp)"

definition MakeDay :: "int \<Rightarrow> int \<Rightarrow> int \<Rightarrow> int" where
  \<comment> \<open>the day number of the first of the month, plus \<open>date - 1\<close>\<close>
  "MakeDay yr month dt =
     (let ym = yr + month div 12;
          mn = month mod 12;
          lp = (if DaysInYear ym = 366 then 1 else 0);
          firstOfMonth = DayFromYear ym +
            (if mn = 0 then 0 else if mn = 1 then 31
             else [59, 90, 120, 151, 181, 212, 243, 273, 304, 334] ! nat (mn - 2) + lp)
      in firstOfMonth + dt - 1)"

definition MakeDate :: "int \<Rightarrow> int \<Rightarrow> int" where
  "MakeDate dy tm = dy * msPerDay + tm"

definition LocalTime :: "int \<Rightarrow> int \<Rightarrow> int" where
  "LocalTime tza t = t + tza"

definition UTC :: "int \<Rightarrow> int \<Rightarrow> int" where
  "UTC tza t = t - tza"

definition getFullYear :: "int \<Rightarrow> int \<Rightarrow> int" where
  "getFullYear tza t = YearFromTime (LocalTime tza t)"

definition getMonth :: "int \<Rightarrow> int \<Rightarrow> int" where
  "getMonth tza t = MonthFromTime (LocalTime tza t)"

definition getDate :: "int \<Rightarrow> int \<Rightarrow> int" where
  "getDate tza t = DateFromTime (LocalTime tza t)"

definition newDate :: "int \<Rightarrow> int \<Rightarrow> int \<Rightarrow> int \<Rightarrow> Date" where
  \<comment> \<open>\<open>new Date(year, month, date)\<close>, in local time; a year from 0 to 99 means 1900 + year\<close>
  "newDate tza yr month dt =
     (let yr' = (if 0 \<le> yr \<and> yr \<le> 99 then 1900 + yr else yr)
      in TimeClip (of_int (UTC tza (MakeDate (MakeDay yr' month dt) 0))))"

section \<open>The Vimshottari dasha engine\<close>

record DashaItem =
  planet :: "string option"
  startDate :: Date
  endDate :: Date
  durationYear :: "int option"
  durationMonth :: "int option"
  durationDay :: "int option"
  level :: int
  parentPlanets :: "string list option"

definition msPerYear :: real where
  "msPerYear = 365.2425 * 24 * 60 * 60 * 1000"

definition addTime :: "Date \<Rightarrow> real option \<Rightarrow> Date" where
  \<comment> \<open>\<open>setTime\<close> clips the sum; the sum is \<open>NaN\<close> when a summand is\<close>
  "addTime date years =
     (case date of
        None \<Rightarrow> None
      | Some t \<Rightarrow>
          (case years of
             None \<Rightarrow> None
           | Some yrs \<Rightarrow> (let addedMs = yrs * msPerYear in TimeClip (of_int t + addedMs))))"

text \<open>
  \<open>getDurationYMD\<close> returns the object \<open>{y, m, d}\<close> as a triple. With an invalid date
  every calendar field is \<open>NaN\<close>, no comparison with \<open>NaN\<close> holds, and the three
  components are \<open>NaN\<close>.
\<close>

definition getDurationYMD ::
  "int \<Rightarrow> Date \<Rightarrow> Date \<Rightarrow> int option \<times> int option \<times> int option" where
  "getDurationYMD tza start end =
     (case start of
        None \<Rightarrow> (None, None, None)
      | Some s \<Rightarrow>
          (case end of
             None \<Rightarrow> (None, None, None)
           | Some e \<Rightarrow>
               (let yy = getFullYear tza e - getFullYear tza s;
                    mm = getMonth tza e - getMonth tza s;
                    dd = getDate tza e - getDate tza s;
                    (mm, dd) =
                      (if dd < 0 then
                         (let prevMonthDate = newDate tza (getFullYear tza e) (getMonth tza e) 0
                          in (mm - 1, map_option (\<lambda>p. dd + getDate tza p) prevMonthDate))
                       else (mm, Some dd));
                    (yy, mm) = (if mm < 0 then (yy - 1, mm + 12) else (yy, mm))
                in (Some yy, Some mm, dd))))"

definition indexOf :: "'a list \<Rightarrow> 'a \<Rightarrow> int" where
  \<comment> \<open>\<open>-1\<close> when the element is absent\<close>
  "indexOf xs x = (if x \<in> set xs then int (length (takeWhile (\<lambda>z. z \<noteq> x) xs)) else - 1)"

definition str :: "string option \<Rightarrow> string" where
  \<comment> \<open>a name inside a template literal\<close>
  "str s = (case s of None \<Rightarrow> ''undefined'' | Some n \<Rightarrow> n)"

definition years_of :: "string option \<Rightarrow> int option" where
  \<comment> \<open>\<open>DASHA_YEARS[planet]\<close>, where the key itself may be \<open>undefined\<close>\<close>
  "years_of p = (case p of None \<Rightarrow> None | Some n \<Rightarrow> DASHA_YEARS n)"

text \<open>
  The three loops are recursions over the values of the counter \<open>i\<close>, which carry the
  running date \<open>currentDate\<close> (\<open>current\<close>) from one iteration to the next.
\<close>

primrec mahaLoop :: "int \<Rightarrow> Date \<Rightarrow> nat list \<Rightarrow> DashaItem list" where
  "mahaLoop lordIndex currentDate [] = []"
| "mahaLoop lordIndex currentDate (i # rest) =
     (let idx = irem (lordIndex + int i) 9;
          pl = elem_at NAKSHATRA_LORDS idx;
          years = years_of pl;
          endD = addTime currentDate (map_option of_int years)
      in \<lparr>planet = pl, startDate = currentDate, endDate = endD,
          durationYear = years, durationMonth = Some 0, durationDay = Some 0,
          level = 1, parentPlanets = None\<rparr>
         # mahaLoop lordIndex endD rest)"

definition calculateMahadashas :: "int \<Rightarrow> real \<Rightarrow> Date \<Rightarrow> DashaItem list" where
  "calculateMahadashas tza moonLon birthDate =
     (let nakshatraSpan = 13.3333333333;
          moonNakshatraPos = moonLon / nakshatraSpan;
          nakshatraIndex = \<lfloor>moonNakshatraPos\<rfloor>;
          fractionTraversed = moonNakshatraPos - of_int nakshatraIndex;
          fractionRemaining = 1 - fractionTraversed;
          lordIndex = irem nakshatraIndex 9;
          firstLord = elem_at NAKSHATRA_LORDS lordIndex;
          totalYears = years_of firstLord;
          balanceYears = map_option (\<lambda>ty. of_int ty * fractionRemaining) totalYears;
          firstEndDate = addTime birthDate balanceYears;
          (fy, fm, fd) = getDurationYMD tza birthDate firstEndDate
      in \<lparr>planet = firstLord, startDate = birthDate, endDate = firstEndDate,
          durationYear = fy, durationMonth = fm, durationDay = fd,
          level = 1, parentPlanets = None\<rparr>
         # mahaLoop lordIndex firstEndDate [1..<9])"

definition subDuration :: "real option \<Rightarrow> int option \<Rightarrow> real option" where
  \<comment> \<open>\<open>(totalYears * subYears) / 120\<close>\<close>
  "subDuration totalYears subYears =
     (case totalYears of
        None \<Rightarrow> None
      | Some ty \<Rightarrow> (case subYears of None \<Rightarrow> None | Some sy \<Rightarrow> Some ((ty * of_int sy) / 120)))"

primrec antarLoop ::
  "int \<Rightarrow> string \<Rightarrow> int option \<Rightarrow> int \<Rightarrow> Date \<Rightarrow> nat list \<Rightarrow> DashaItem list" where
  "antarLoop tza parentPlanetName totalYears startIndex current [] = []"
| "antarLoop tza parentPlanetName totalYears startIndex current (i # rest) =
     (let idx = irem (startIndex + int i) 9;
          subPlanet = elem_at NAKSHATRA_LORDS idx;
          subYears = years_of subPlanet;
          durationYears = subDuration (map_option of_int totalYears) subYears;
          endD = addTime current durationYears;
          (dy, dm, dd) = getDurationYMD tza current endD
      in \<lparr>planet = Some (parentPlanetName @ '' - '' @ str subPlanet),
          startDate = current, endDate = endD,
          durationYear = dy, durationMonth = dm, durationDay = dd,
          level = 2, parentPlanets = Some [parentPlanetName]\<rparr>
         # antarLoop tza parentPlanetName totalYears startIndex endD rest)"

definition calculateAntarDashas :: "int \<Rightarrow> string \<Rightarrow> Date \<Rightarrow> DashaItem list" where
  "calculateAntarDashas tza parentPlanetName startD =
     (let totalYears = DASHA_YEARS parentPlanetName;
          startIndex = indexOf NAKSHATRA_LORDS parentPlanetName
      in antarLoop tza parentPlanetName totalYears startIndex startD [0..<9])"

primrec pratyantarLoop ::
  "int \<Rightarrow> string \<Rightarrow> string \<Rightarrow> real option \<Rightarrow> int \<Rightarrow> Date \<Rightarrow> nat list \<Rightarrow> DashaItem list"
  where
  "pratyantarLoop tza grandParentName parentName antarDurationYears startIndex current [] = []"
| "pratyantarLoop tza grandParentName parentName antarDurationYears startIndex current
     (i # rest) =
     (let idx = irem (startIndex + int i) 9;
          subPlanet = elem_at NAKSHATRA_LORDS idx;
          subYears = years_of subPlanet;
          durationYears = subDuration antarDurationYears subYears;
          endD = addTime current durationYears;
          (dy, dm, dd) = getDurationYMD tza current endD
      in \<lparr>planet = Some (grandParentName @ '' - '' @ parentName @ '' - '' @ str subPlanet),
          startDate = current, endDate = endD,
          durationYear = dy, durationMonth = dm, durationDay = dd,
          level = 3, parentPlanets = Some [grandParentName, parentName]\<rparr>
         # pratyantarLoop tza grandParentName parentName antarDurationYears startIndex endD
             rest)"

definition calculatePratyantarDashas ::
  "int \<Rightarrow> string \<Rightarrow> string \<Rightarrow> Date \<Rightarrow> DashaItem list" where
  "calculatePratyantarDashas tza grandParentName parentName startD =
     (let gpYears = DASHA_YEARS grandParentName;
          pYears = DASHA_YEARS parentName;
          antarDurationYears = subDuration (map_option of_int gpYears) pYears;
          startIndex = indexOf NAKSHATRA_LORDS parentName
      in pratyantarLoop tza grandParentName parentName antarDurationYears startIndex startD
           [0..<9])"

section \<open>Properties of \<open>normalize\<close>\<close>

text \<open>
  From here on the definitions above are fixed and their properties are proved. The
  remainder \<open>fmod x 360\<close> is \<open>x\<close> minus a multiple of 360 taken towards zero, so it
  lies in \<open>[0, 360)\<close> for \<open>x \<ge> 0\<close> and in \<open>(-360, 0]\<close> for \<open>x < 0\<close>.
\<close>

lemma floor_div_bounds:
  fixes x c :: real
  assumes "0 < c"
  shows "c * of_int \<lfloor>x / c\<rfloor> \<le> x" and "x < c * of_int \<lfloor>x / c\<rfloor> + c"
proof -
  have "of_int \<lfloor>x / c\<rfloor> * c \<le> x"
    using of_int_floor_le[of "x / c"] assms by (simp only: pos_le_divide_eq)
  then show "c * of_int \<lfloor>x / c\<rfloor> \<le> x" by (simp only: mult.commute)
  have "x / c < of_int \<lfloor>x / c\<rfloor> + 1" by linarith
  then have "x < (of_int \<lfloor>x / c\<rfloor> + 1) * c"
    using assms by (simp only: pos_divide_less_eq)
  then show "x < c * of_int \<lfloor>x / c\<rfloor> + c" by (simp add: algebra_simps)
qed

lemma fmod_floor: "0 \<le> x \<Longrightarrow> fmod x 360 = x - 360 * of_int \<lfloor>x / 360\<rfloor>"
  by (simp add: fmod_def trunc_def)

lemma fmod_neg: "x < 0 \<Longrightarrow> fmod x 360 = x + 360 * of_int \<lfloor>- x / 360\<rfloor>"
  by (simp add: fmod_def trunc_def)

lemma fmod_nonneg_range: assumes "0 \<le> x" shows "0 \<le> fmod x 360 \<and> fmod x 360 < 360"
  using floor_div_bounds[of 360 x] assms by (simp add: fmod_floor)

lemma fmod_neg_range: assumes "x < 0" shows "- 360 < fmod x 360 \<and> fmod x 360 \<le> 0"
  using floor_div_bounds[of 360 "- x"] assms by (simp add: fmod_neg)

lemma normalize_range: "0 \<le> normalize d \<and> normalize d < 360"
proof (cases "0 \<le> d")
  case True
  then show ?thesis using fmod_nonneg_range[of d] by (simp add: normalize_def Let_def)
next
  case False
  then show ?thesis using fmod_neg_range[of d] by (auto simp add: normalize_def Let_def)
qed

lemma floor_unit: fixes x :: real shows "0 \<le> x \<Longrightarrow> x < 360 \<Longrightarrow> \<lfloor>x / 360\<rfloor> = 0"
  by (rule floor_unique) simp_all

lemma fmod_small: "0 \<le> x \<Longrightarrow> x < 360 \<Longrightarrow> fmod x 360 = x"
  by (simp add: fmod_floor floor_unit)

lemma fmod_plus_period: assumes "0 \<le> x" "x < 360" shows "fmod (x + 360) 360 = x"
proof -
  have "\<lfloor>(x + 360) / 360\<rfloor> = 1" by (rule floor_unique) (use assms in simp_all)
  then show ?thesis using assms by (simp add: fmod_floor)
qed

lemma normalize_formula: "normalize d = fmod (fmod d 360 + 360) 360"
proof (cases "fmod d 360 < 0")
  case True
  have "- 360 < fmod d 360"
    using fmod_neg_range[of d] fmod_nonneg_range[of d] by (cases "d < 0") auto
  then show ?thesis using True by (simp add: normalize_def Let_def fmod_small)
next
  case False
  have "fmod d 360 < 360"
    using fmod_neg_range[of d] fmod_nonneg_range[of d] by (cases "d < 0") auto
  then show ?thesis using False by (simp add: normalize_def Let_def fmod_plus_period)
qed

lemma normalize_shift: "\<exists>k::int. normalize d = d + 360 * of_int k"
proof (cases "0 \<le> d")
  case True
  then have "normalize d = d + 360 * of_int (- \<lfloor>d / 360\<rfloor>)"
    using fmod_nonneg_range[of d] by (simp add: normalize_def Let_def fmod_floor)
  then show ?thesis by blast
next
  case False
  then have d: "d < 0" by simp
  show ?thesis
  proof (cases "fmod d 360 < 0")
    case True
    then have "normalize d = d + 360 * of_int (\<lfloor>- d / 360\<rfloor> + 1)"
      using d by (simp add: normalize_def Let_def fmod_neg)
    then show ?thesis by blast
  next
    case False
    then have "normalize d = d + 360 * of_int (\<lfloor>- d / 360\<rfloor>)"
      using d by (simp add: normalize_def Let_def fmod_neg)
    then show ?thesis by blast
  qed
qed

lemma normalize_mod: "normalize d = d - 360 * of_int \<lfloor>d / 360\<rfloor>"
proof -
  have r: "0 \<le> normalize d" "normalize d < 360" using normalize_range by auto
  obtain k :: int where k: "normalize d = d + 360 * of_int k"
    using normalize_shift by blast
  have "\<lfloor>d / 360\<rfloor> = - k"
  proof (rule floor_unique)
    show "of_int (- k) \<le> d / 360" using r k by simp
    show "d / 360 < of_int (- k) + 1" using r k by simp
  qed
  then show ?thesis using k by simp
qed

text \<open>
  In exact arithmetic, then, \<open>normalize d\<close> lies in the half-open interval \<open>[0, 360)\<close>
  and equals \<open>((d mod 360) + 360) mod 360\<close> for every real \<open>d\<close>, where \<open>mod\<close> is the
  remainder operator of the source language. The houses below rest on this.
\<close>

lemma normalize_in_range_and_formula:
  "0 \<le> normalize d \<and> normalize d < 360 \<and> normalize d = fmod (fmod d 360 + 360) 360"
  using normalize_range [of d] normalize_formula [of d] by simp

subsection \<open>\<open>normalize\<close> on doubles\<close>

text \<open>
  The program's sum \<open>d + 360\<close> is rounded. The doubles just below 360 are \<open>2^-44\<close>
  apart, so for a remainder \<open>d\<close> in \<open>[-2^-45, 0)\<close> the sum is at most half a step
  below 360 and rounds to 360 itself (at exactly half a step the tie goes to 360, whose
  significand is even).
\<close>

lemma fmod_small_neg: assumes "- 360 < x" "x < 0" shows "fmod x 360 = x"
proof -
  have "\<lfloor>- x / 360\<rfloor> = 0" by (rule floor_unique) (use assms in simp_all)
  then show ?thesis using assms by (simp add: fmod_def trunc_def)
qed

lemma fmod_360: "fmod 360 360 = 0"
  by (simp add: fmod_def trunc_def)

lemma ulp_256_512:
  fixes x :: real
  assumes "256 \<le> x" "x < 512"
  shows "(2::real) powr (of_int \<lfloor>log 2 \<bar>x\<bar>\<rfloor> - 52) = 1 / 2 ^ 44"
proof -
  have p8: "(2::real) powr (of_int 8) = 256" and p9: "(2::real) powr (of_int (8 + 1)) = 512"
    by (simp_all add: powr_numeral)
  have "\<lfloor>log 2 \<bar>x\<bar>\<rfloor> = 8"
    using assms p8 p9 floor_log_eq_powr_iff [of "\<bar>x\<bar>" 2 8] by simp
  then have "(2::real) powr (of_int \<lfloor>log 2 \<bar>x\<bar>\<rfloor> - 52) = 2 powr (- 44)" by simp
  also have "\<dots> = 1 / 2 powr 44" by (rule powr_minus_divide)
  also have "\<dots> = 1 / 2 ^ 44" by simp
  finally show ?thesis .
qed

lemma round_even_below:
  fixes d :: real and N :: int
  assumes "even N" "- (1 / 2) \<le> d" "d < 0"
  shows "round_even (of_int N + d) = N"
proof -
  have f: "\<lfloor>of_int N + d\<rfloor> = N - 1" by (rule floor_unique) (use assms in simp_all)
  have o: "odd (N - 1)" using assms(1) by simp
  show ?thesis
    unfolding round_even_def Let_def f using assms o by auto
qed

lemma binary64_below_360:
  fixes d :: real
  assumes "- (1 / 2 ^ 45) \<le> d" "d < 0"
  shows "binary64 (d + 360) = 360"
proof -
  have r: "256 \<le> d + 360" "d + 360 < 512" "d + 360 \<noteq> 0"
    using assms by (auto intro: order_trans [of _ "- (1 / 2 ^ 45)"])
  have u: "(2::real) powr (of_int \<lfloor>log 2 \<bar>d + 360\<bar>\<rfloor> - 52) = 1 / 2 ^ 44"
    using r by (simp only: ulp_256_512)
  have s: "(d + 360) / (1 / 2 ^ 44) = of_int (360 * 2 ^ 44) + d * 2 ^ 44"
    by (simp add: algebra_simps)
  have b: "- (1 / 2) \<le> d * 2 ^ 44" "d * 2 ^ 44 < 0" using assms by (simp_all add: field_simps)
  have e: "round_even ((d + 360) / (1 / 2 ^ 44)) = 360 * 2 ^ 44"
    unfolding s by (rule round_even_below) (use b in simp_all)
  have "binary64 (d + 360) = of_int (round_even ((d + 360) / (1 / 2 ^ 44))) * (1 / 2 ^ 44)"
    using r(3) by (simp only: binary64_def Let_def u if_False)
  also have "\<dots> = 360" by (simp only: e) simp
  finally show ?thesis .
qed

text \<open>
  Every argument in \<open>[-2^-45, 0)\<close>, about \<open>-2.8e-14\<close> to 0, is therefore sent to 360,
  which is outside \<open>[0, 360)\<close>. The double nearest to \<open>-1e-20\<close> is one of them.
\<close>

lemma normalize_double_below_zero:
  assumes "- (1 / 2 ^ 45) \<le> d" "d < 0"
  shows "normalize_double d = 360"
proof -
  have "- 360 < d" using assms by (auto intro: less_le_trans [of _ "- (1 / 2 ^ 45)"])
  then have "fmod d 360 = d" using assms by (simp add: fmod_small_neg)
  then show ?thesis using assms by (simp add: normalize_double_def Let_def binary64_below_360)
qed

text \<open>
  A longitude of 360 has no sign: \<open>formatPlanet\<close> computes the sign index 12 and reads
  \<open>SIGNS[12]\<close>, which is \<open>undefined\<close>.
\<close>

lemma formatPlanet_at_360:
  "sign (formatPlanet n 360 r asc) = None \<and> signId (formatPlanet n 360 r asc) = 13"
  by (simp add: formatPlanet_def Let_def elem_at_def SIGNS_def)

text \<open>
  Claim C8 says that for every real input, negative or beyond 360 included,
  \<open>normalize\<close> returns a value in the half-open interval \<open>[0, 360)\<close>, equal to
  \<open>((d mod 360) + 360) mod 360\<close>. The program does not: at the double \<open>d = -2^-67\<close> (about
  \<open>-6.8e-21\<close>) the remainder \<open>d % 360\<close> is \<open>d\<close>, the sum \<open>d + 360\<close> rounds to 360, and
  \<open>normalize\<close> returns 360, which is not below 360; the formula, evaluated in the same
  arithmetic, applies the remainder once more and yields 0.
\<close>

theorem normalize_double_returns_360:
  "normalize_double (- (1 / 2 ^ 67)) = 360
   \<and> \<not> normalize_double (- (1 / 2 ^ 67)) < 360
   \<and> fmod (binary64 (fmod (- (1 / 2 ^ 67)) 360 + 360)) 360 = 0"
proof -
  have a: "- (1 / 2 ^ 45) \<le> - (1 / 2 ^ 67 :: real)" "- (1 / 2 ^ 67 :: real) < 0" by simp_all
  have n: "normalize_double (- (1 / 2 ^ 67)) = 360"
    using a by (rule normalize_double_below_zero)
  have "- 360 < - (1 / 2 ^ 67 :: real)" by simp
  then have "fmod (- (1 / 2 ^ 67)) 360 = - (1 / 2 ^ 67)" using a(2) by (rule fmod_small_neg)
  then have "fmod (binary64 (fmod (- (1 / 2 ^ 67)) 360 + 360)) 360 = fmod 360 360"
    using binary64_below_360 [OF a] by simp
  then show ?thesis using n by (simp add: fmod_360)
qed

section \<open>Houses\<close>

lemma house_code:
  "house (formatPlanet n L r asc) =
     \<lfloor>fmod (if L - (asc - 15) < 0 then L - (asc - 15) + 360 else L - (asc - 15)) 360 / 30\<rfloor> + 1"
  by (simp add: formatPlanet_def Let_def)

lemma inline_normalize:
  assumes "- 360 \<le> a"
  shows "fmod (if a < 0 then a + 360 else a) 360 = normalize a"
proof (cases "a < 0")
  case True
  then have r: "0 \<le> a + 360" "a + 360 < 360" using assms by auto
  have "\<lfloor>- a / 360\<rfloor> = (if a = - 360 then 1 else 0)"
    by (rule floor_unique) (use True assms in auto)
  then have "fmod a 360 = (if a = - 360 then 0 else a)" using True by (simp add: fmod_neg)
  then show ?thesis using True r by (auto simp add: normalize_def Let_def fmod_small)
next
  case False
  then have "0 \<le> fmod a 360" using fmod_nonneg_range[of a] by simp
  then show ?thesis using False by (simp add: normalize_def Let_def)
qed

lemma house_normalize:
  assumes "0 \<le> L" "asc < 360"
  shows "house (formatPlanet n L r asc) = \<lfloor>normalize (L - (asc - 15)) / 30\<rfloor> + 1"
proof -
  have "- 360 \<le> L - (asc - 15)" using assms by simp
  then show ?thesis by (simp only: house_code inline_normalize)
qed

lemma floor_normalize_30: "\<lfloor>normalize y / 30\<rfloor> = \<lfloor>y / 30\<rfloor> mod 12"
proof -
  have "normalize y / 30 = y / 30 - of_int (12 * \<lfloor>y / 360\<rfloor>)"
    by (simp add: normalize_mod)
  then have "\<lfloor>normalize y / 30\<rfloor> = \<lfloor>y / 30\<rfloor> - 12 * \<lfloor>y / 360\<rfloor>"
    by (simp only: floor_diff_of_int)
  moreover have "\<lfloor>y / 360\<rfloor> = \<lfloor>y / 30\<rfloor> div 12"
  proof -
    have "y / 360 = (y / 30) / real_of_int 12" by simp
    then show ?thesis by (simp only: floor_divide_real_eq_div) 
  qed
  ultimately show ?thesis by (simp add: minus_mult_div_eq_mod algebra_simps)
qed

lemma house_mod:
  assumes "0 \<le> L" "asc < 360"
  shows "house (formatPlanet n L r asc) = \<lfloor>(L - (asc - 15)) / 30\<rfloor> mod 12 + 1"
  using assms by (simp only: house_normalize floor_normalize_30)

lemma house_shift:
  assumes "0 \<le> L" "asc < 360"
  shows "house (formatPlanet n (normalize (L + 30 * real k)) r asc) =
           (house (formatPlanet n L r asc) - 1 + int k) mod 12 + 1"
proof -
  obtain j :: int where j: "normalize (L + 30 * real k) = L + 30 * real k + 360 * of_int j"
    using normalize_shift by blast
  have "(normalize (L + 30 * real k) - (asc - 15)) / 30
          = (L - (asc - 15)) / 30 + of_int (int k + 12 * j)"
    by (simp add: j)
  then have "\<lfloor>(normalize (L + 30 * real k) - (asc - 15)) / 30\<rfloor>
          = \<lfloor>(L - (asc - 15)) / 30\<rfloor> + (int k + 12 * j)"
    by (simp only: floor_add_int)
  moreover have "0 \<le> normalize (L + 30 * real k)" using normalize_range by simp
  ultimately have "house (formatPlanet n (normalize (L + 30 * real k)) r asc)
          = (\<lfloor>(L - (asc - 15)) / 30\<rfloor> + (int k + 12 * j)) mod 12 + 1"
    using assms by (simp only: house_mod)
  also have "(\<lfloor>(L - (asc - 15)) / 30\<rfloor> + (int k + 12 * j)) mod 12
          = (\<lfloor>(L - (asc - 15)) / 30\<rfloor> mod 12 + int k) mod 12"
  proof -
    have "\<lfloor>(L - (asc - 15)) / 30\<rfloor> + (int k + 12 * j)
            = (\<lfloor>(L - (asc - 15)) / 30\<rfloor> + int k) + 12 * j" by simp
    then show ?thesis by (simp only: mod_mult_self2 mod_add_left_eq)
  qed
  finally show ?thesis using assms by (simp only: house_mod add_diff_cancel_right')
qed

lemma cyc_image: 
  fixes h :: int
  shows "(\<lambda>k. (h + int k) mod 12 + 1) ` {0..<12} = {1..12}"
proof
  show "(\<lambda>k. (h + int k) mod 12 + 1) ` {0..<12} \<subseteq> {1..12}" by auto
  show "{1..12} \<subseteq> (\<lambda>k. (h + int k) mod 12 + 1) ` {0..<12}"
  proof
    fix x :: int assume x: "x \<in> {1..12}"
    let ?k = "nat ((x - 1 - h) mod 12)"
    have "?k \<in> {0..<12}" by simp
    moreover have "(h + int ?k) mod 12 + 1 = x" using x by (simp add: mod_simps)
    ultimately show "x \<in> (\<lambda>k. (h + int k) mod 12 + 1) ` {0..<12}" by force
  qed
qed

lemma cyc_inj:
  fixes h :: int
  shows "inj_on (\<lambda>k. (h + int k) mod 12 + 1) {0..<12}"
proof (rule inj_onI)
  fix a b :: nat
  assume a: "a \<in> {0..<12}" and b: "b \<in> {0..<12}"
    and e: "(h + int a) mod 12 + 1 = (h + int b) mod 12 + 1"
  from e have "(h + int a) mod 12 = (h + int b) mod 12" by simp
  then have "(int a - int b) mod 12 = 0"
    by (metis add_diff_cancel_left' mod_diff_cong diff_self mod_0)
  then show "a = b" using a b by auto presburger
qed

text \<open>
  Claim C5. House assignment is cyclic and total. For a sidereal longitude \<open>L\<close> and an
  ascendant longitude \<open>asc\<close>, both in \<open>[0, 360)\<close>, the house that \<open>formatPlanet\<close>
  computes is \<open>floor(normalize(L - (asc - 15)) / 30) + 1\<close> and lies in \<open>1..12\<close>; house
  \<open>h\<close> is exactly the band of 30 degrees in which the adjusted longitude lies between
  \<open>30 (h - 1)\<close> and \<open>30 h\<close>; moving the body on by \<open>k\<close> bands of 30 degrees moves it on
  by \<open>k\<close> houses cyclically, so the twelve bands of one full rotation meet each of the
  twelve houses exactly once.
\<close>

theorem house_cyclic_total:
  assumes "0 \<le> L" and "L < 360" and "0 \<le> asc" and "asc < 360"
  shows "house (formatPlanet n L r asc) = \<lfloor>normalize (L - (asc - 15)) / 30\<rfloor> + 1
    \<and> house (formatPlanet n L r asc) \<in> {1..12}
    \<and> (\<forall>h. house (formatPlanet n L r asc) = h \<longleftrightarrow>
           30 * (of_int h - 1) \<le> normalize (L - (asc - 15))
           \<and> normalize (L - (asc - 15)) < 30 * of_int h)
    \<and> (\<forall>k. house (formatPlanet n (normalize (L + 30 * real k)) r asc) =
           (house (formatPlanet n L r asc) - 1 + int k) mod 12 + 1)
    \<and> (\<lambda>k. house (formatPlanet n (normalize (L + 30 * real k)) r asc)) ` {0..<12} = {1..12}
    \<and> inj_on (\<lambda>k. house (formatPlanet n (normalize (L + 30 * real k)) r asc)) {0..<12}"
proof -
  let ?a = "normalize (L - (asc - 15))"
  let ?h = "house (formatPlanet n L r asc)"
  have eq: "?h = \<lfloor>?a / 30\<rfloor> + 1"
    using assms by (simp only: house_normalize)
  have rng: "0 \<le> ?a" "?a < 360"
    using normalize_range [of "L - (asc - 15)"] by simp_all
  have lo: "0 \<le> \<lfloor>?a / 30\<rfloor>" using rng by simp
  have hi: "\<lfloor>?a / 30\<rfloor> < 12" using rng by (simp add: floor_less_iff)
  have mem: "?h \<in> {1..12}" using eq lo hi by simp
  have band: "?h = h \<longleftrightarrow> 30 * (of_int h - 1) \<le> ?a \<and> ?a < 30 * of_int h" for h
  proof -
    have "\<lfloor>?a / 30\<rfloor> = h - 1 \<longleftrightarrow> of_int (h - 1) \<le> ?a / 30 \<and> ?a / 30 < of_int (h - 1) + 1"
      by (rule floor_eq_iff)
    then show ?thesis using eq by auto
  qed
  have shift: "house (formatPlanet n (normalize (L + 30 * real k)) r asc) =
      (?h - 1 + int k) mod 12 + 1" for k
    using assms by (simp only: house_shift)
  have img: "(\<lambda>k. house (formatPlanet n (normalize (L + 30 * real k)) r asc)) ` {0..<12}
      = {1..12}"
    by (simp only: shift cyc_image)
  have inj: "inj_on (\<lambda>k. house (formatPlanet n (normalize (L + 30 * real k)) r asc)) {0..<12}"
    by (simp only: shift cyc_inj)
  from eq mem band shift img inj show ?thesis by blast
qed

theorem house_cyclic_total_witness:
  "(0::real) \<le> 100 \<and> (100::real) < 360 \<and> (0::real) \<le> 200 \<and> (200::real) < 360
   \<and> house (formatPlanet ''Sun'' 100 False 200) = 10
   \<and> house (formatPlanet ''Sun'' (normalize (100 + 30 * real 5)) False 200) = 3"
proof -
  have b: "(0::real) \<le> 100" "(100::real) < 360" "(0::real) \<le> 200" "(200::real) < 360"
    by simp_all
  note t = house_cyclic_total [OF b, of "''Sun''" False]
  from t have h0: "house (formatPlanet ''Sun'' 100 False 200)
      = \<lfloor>normalize (100 - (200 - 15)) / 30\<rfloor> + 1"
    by blast
  from t have "\<forall>k. house (formatPlanet ''Sun'' (normalize (100 + 30 * real k)) False 200) =
      (house (formatPlanet ''Sun'' 100 False 200) - 1 + int k) mod 12 + 1"
    by blast
  then have h5: "house (formatPlanet ''Sun'' (normalize (100 + 30 * real 5)) False 200) =
      (house (formatPlanet ''Sun'' 100 False 200) - 1 + int 5) mod 12 + 1"
    by blast
  have n: "normalize (100 - (200 - 15)) = 275"
    by (simp add: normalize_def fmod_def trunc_def)
  have ten: "house (formatPlanet ''Sun'' 100 False 200) = 10"
    by (simp only: h0 n) simp
  show ?thesis using b ten h5 by simp
qed

section \<open>Nakshatra and dignity\<close>

text \<open>
  Claim C3 says that for every sidereal longitude \<open>L\<close> in \<open>[0, 360)\<close> the nakshatra index
  of a chart point is \<open>floor(L / (360/27))\<close>, lies in \<open>0..26\<close> and selects a name of the
  table of 27. \<open>formatPlanet\<close> divides by the literal \<open>13.3333333\<close>, which is smaller
  than \<open>360/27\<close>: at \<open>L = 359.9999995\<close> the index is 27, the name is the fallback
  \<open>Unknown\<close> and the lord is the first of the cycle, where division by \<open>360/27\<close> gives
  index 26, the name \<open>Revati\<close> and the lord \<open>Budha\<close>.
\<close>

theorem nakshatra_index_27:
  "\<lfloor>359.9999995 / (13.3333333::real)\<rfloor> = 27 \<and> \<lfloor>359.9999995 / (360 / 27 :: real)\<rfloor> = 26
   \<and> nakshatra (formatPlanet ''Moon'' 359.9999995 False 0) = ''Unknown''
   \<and> nakshatraLord (formatPlanet ''Moon'' 359.9999995 False 0) = Some ''Ketu''
   \<and> elem_at NAKSHATRAS 26 = Some ''Revati''
   \<and> elem_at NAKSHATRA_LORDS (irem 26 9) = Some ''Budha''"
  by (simp add: formatPlanet_def Let_def elem_at_def NAKSHATRAS_def NAKSHATRA_LORDS_def irem_def)

text \<open>
  Claim C4 says that the dignity of the ascendant point is the placeholder \<open>-\<close>. The
  table of \<open>calculateDignity\<close> has an entry for \<open>Lagna\<close>, with an empty exaltation sign,
  an empty debilitation sign and no own sign, so the lookup succeeds and the result is
  \<open>Neutral\<close>; the placeholder is returned for a name with no entry.
\<close>

theorem lagna_dignity_neutral:
  "dignity (formatPlanet ''Ascendant'' 10 False 10) = ''Neutral''
   \<and> calculateDignity ''Lagna'' (Some ''Mesha'') \<noteq> ''-''"
  by (simp add: formatPlanet_def Let_def elem_at_def SIGNS_def PLANET_NAME_MAP_def
        calculateDignity_def rules_def)

text \<open>
  Claim C4, amended. For every non-empty sign name the dignity computed for \<open>Lagna\<close> is
  \<open>Neutral\<close>, and for each of the nine tabulated bodies the result is \<open>Exalted\<close>,
  \<open>Debilitated\<close>, \<open>Own Sign\<close> or \<open>Neutral\<close> by the first match, in that order, against
  the exaltation sign, the debilitation sign and the own signs of the body's entry.
\<close>

theorem calculateDignity_priority:
  assumes "s \<noteq> ''''"
  shows "calculateDignity ''Lagna'' (Some s) = ''Neutral'' \<and>
    (\<forall>p \<in> {''Surya'', ''Chandra'', ''Kuja'', ''Budha'', ''Guru'', ''Shukra'', ''Shani'',
             ''Rahu'', ''Ketu''}.
       \<exists>r. rules p = Some r \<and>
         calculateDignity p (Some s) =
           (if s = ex r then ''Exalted''
            else if s = deb r then ''Debilitated''
            else if s \<in> set (own r) then ''Own Sign''
            else ''Neutral''))"
  using assms by (simp add: calculateDignity_def rules_def)

theorem calculateDignity_priority_witness:
  "''Vrischika'' \<noteq> '''' \<and> calculateDignity ''Lagna'' (Some ''Vrischika'') = ''Neutral''
   \<and> calculateDignity ''Ketu'' (Some ''Vrischika'') = ''Exalted''
   \<and> calculateDignity ''Kuja'' (Some ''Vrischika'') = ''Own Sign''"
  using calculateDignity_priority [of "''Vrischika''"] by (simp add: rules_def)

section \<open>Retrograde motion\<close>

lemma isRetrograde_formatPlanet: "isRetrograde (formatPlanet n l r a) = r"
  by (simp add: formatPlanet_def Let_def)

lemma name_formatPlanet:
  "name (formatPlanet n l r a) = (case PLANET_NAME_MAP n of None \<Rightarrow> n | Some v \<Rightarrow> v)"
  by (simp add: formatPlanet_def Let_def)

lemma wrap180_range:
  assumes "- 360 < d" and "d < 360"
  shows "- 180 < wrap180 d \<and> wrap180 d \<le> 180
    \<and> (wrap180 d = d \<or> wrap180 d = d + 360 \<or> wrap180 d = d - 360)"
  using assms by (simp add: wrap180_def)

lemma sampled_retrograde:
  fixes cur prev :: real
  assumes "0 \<le> cur" "cur < 360" "0 \<le> prev" "prev < 360"
  shows "(let diff = cur - prev;
              diff = (if diff < - 180 then diff + 360 else diff);
              diff = (if diff > 180 then diff - 360 else diff)
          in diff < 0) \<longleftrightarrow> (cur - prev = - 180 \<or> wrap180 (cur - prev) < 0)"
  using assms by (auto simp add: Let_def wrap180_def)

lemma names_positions:
  "map name (calculatePositions eph date lat lon ay) =
     [''Surya'', ''Chandra'', ''Kuja'', ''Budha'', ''Guru'', ''Shukra'', ''Shani'', ''Rahu'',
      ''Ketu'', ''Lagna'']"
  by (simp add: calculatePositions_def Let_def bodyMap_def name_formatPlanet PLANET_NAME_MAP_def)

lemma retro_fixed:
  "\<not> isRetrograde (calculatePositions eph date lat lon ay ! 0)
   \<and> \<not> isRetrograde (calculatePositions eph date lat lon ay ! 1)
   \<and> isRetrograde (calculatePositions eph date lat lon ay ! 7)
   \<and> isRetrograde (calculatePositions eph date lat lon ay ! 8)"
  by (simp add: calculatePositions_def Let_def bodyMap_def isRetrograde_formatPlanet)

lemma retro_sampled:
  assumes "2 \<le> i" "i \<le> 6"
  shows "isRetrograde (calculatePositions eph date lat lon ay ! i) \<longleftrightarrow>
     (let diff = EclipticLon eph (bodyMap ! i) date - EclipticLon eph (bodyMap ! i) (date - 3600000);
          diff = (if diff < - 180 then diff + 360 else diff);
          diff = (if diff > 180 then diff - 360 else diff)
      in diff < 0)"
proof -
  from assms have "i = 2 \<or> i = 3 \<or> i = 4 \<or> i = 5 \<or> i = 6" by arith
  then show ?thesis
    by (elim disjE) (simp_all add: calculatePositions_def bodyMap_def isRetrograde_formatPlanet Let_def)
qed

text \<open>
  Claim C7 says that a sampled body is retrograde iff the difference of its two tropical
  longitudes, moved by \<open>\<plusminus>360\<close> into \<open>(-180, 180]\<close>, is negative. The code adjusts a
  difference below \<open>-180\<close> or above \<open>180\<close> only: a difference of exactly \<open>-180\<close> stays
  as it is and counts as retrograde, while its representative in \<open>(-180, 180]\<close> is \<open>180\<close>.
  Here Mars is sampled at 0 degrees, and at 180 degrees one hour earlier.
\<close>

theorem retrograde_boundary_counterexample:
  "isRetrograde (calculatePositions
      \<lparr>SiderealTime = (\<lambda>t. 0), EclipticLon = (\<lambda>b t. if t = 0 then 0 else 180),
       ut = (\<lambda>t. 0)\<rparr> 0 0 0 0 ! 2)
   \<and> name (calculatePositions
      \<lparr>SiderealTime = (\<lambda>t. 0), EclipticLon = (\<lambda>b t. if t = 0 then 0 else 180),
       ut = (\<lambda>t. 0)\<rparr> 0 0 0 0 ! 2) = ''Kuja''
   \<and> - 180 < wrap180 (0 - 180) \<and> wrap180 (0 - 180) \<le> 180 \<and> \<not> wrap180 (0 - 180) < 0"
  by (simp add: calculatePositions_def Let_def bodyMap_def isRetrograde_formatPlanet
        name_formatPlanet PLANET_NAME_MAP_def wrap180_def)

text \<open>
  Claim C7, amended. The Sun and the Moon are never marked retrograde and Rahu and Ketu
  always are, whatever the samples. Each of the five other bodies, with both samples in
  \<open>[0, 360)\<close>, is marked retrograde iff the difference between its tropical longitude
  now and one hour earlier is exactly \<open>-180\<close> or its representative in \<open>(-180, 180]\<close>
  is negative.
\<close>

theorem retrograde_classification:
  "\<not> isRetrograde (calculatePositions eph date lat lon ay ! 0)
   \<and> \<not> isRetrograde (calculatePositions eph date lat lon ay ! 1)
   \<and> isRetrograde (calculatePositions eph date lat lon ay ! 7)
   \<and> isRetrograde (calculatePositions eph date lat lon ay ! 8)
   \<and> map name (calculatePositions eph date lat lon ay) =
       [''Surya'', ''Chandra'', ''Kuja'', ''Budha'', ''Guru'', ''Shukra'', ''Shani'', ''Rahu'',
        ''Ketu'', ''Lagna'']
   \<and> (\<forall>i cur prev. 2 \<le> i \<and> i \<le> 6
         \<and> cur = EclipticLon eph (bodyMap ! i) date
         \<and> prev = EclipticLon eph (bodyMap ! i) (date - 3600000)
         \<and> 0 \<le> cur \<and> cur < 360 \<and> 0 \<le> prev \<and> prev < 360 \<longrightarrow>
         - 180 < wrap180 (cur - prev) \<and> wrap180 (cur - prev) \<le> 180
         \<and> (isRetrograde (calculatePositions eph date lat lon ay ! i) \<longleftrightarrow>
              cur - prev = - 180 \<or> wrap180 (cur - prev) < 0))"
proof -
  have "- 180 < wrap180 (cur - prev) \<and> wrap180 (cur - prev) \<le> 180
      \<and> (isRetrograde (calculatePositions eph date lat lon ay ! i) \<longleftrightarrow>
            cur - prev = - 180 \<or> wrap180 (cur - prev) < 0)"
    if i: "2 \<le> i" "i \<le> 6"
      and c: "cur = EclipticLon eph (bodyMap ! i) date"
      and p: "prev = EclipticLon eph (bodyMap ! i) (date - 3600000)"
      and r: "0 \<le> cur" "cur < 360" "0 \<le> prev" "prev < 360"
    for i cur prev
  proof -
    have "- 360 < cur - prev" "cur - prev < 360" using r by simp_all
    then have w: "- 180 < wrap180 (cur - prev) \<and> wrap180 (cur - prev) \<le> 180"
      using wrap180_range [of "cur - prev"] by simp
    have "isRetrograde (calculatePositions eph date lat lon ay ! i) \<longleftrightarrow>
        (let diff = cur - prev;
             diff = (if diff < - 180 then diff + 360 else diff);
             diff = (if diff > 180 then diff - 360 else diff)
         in diff < 0)"
      using retro_sampled [OF i, of eph date lat lon ay] by (simp only: c p)
    also have "\<dots> \<longleftrightarrow> cur - prev = - 180 \<or> wrap180 (cur - prev) < 0"
      by (rule sampled_retrograde [OF r])
    finally show ?thesis using w by simp
  qed
  then show ?thesis
    using retro_fixed [of eph date lat lon ay] names_positions [of eph date lat lon ay]
    by blast
qed

theorem retrograde_classification_witness:
  "isRetrograde (calculatePositions
      \<lparr>SiderealTime = (\<lambda>t. 0), EclipticLon = (\<lambda>b t. if t = 0 then 10 else 10.5),
       ut = (\<lambda>t. 0)\<rparr> 0 0 0 0 ! 2)
   \<and> \<not> isRetrograde (calculatePositions
      \<lparr>SiderealTime = (\<lambda>t. 0), EclipticLon = (\<lambda>b t. if t = 0 then 10 else 10.5),
       ut = (\<lambda>t. 0)\<rparr> 0 0 0 0 ! 0)"
proof -
  let ?eph = "\<lparr>SiderealTime = (\<lambda>t. 0), EclipticLon = (\<lambda>b t. if t = 0 then 10 else 10.5),
       ut = (\<lambda>t::int. 0)\<rparr>"
  note t = retrograde_classification [of ?eph 0 0 0 0]
  from t have s: "\<not> isRetrograde (calculatePositions ?eph 0 0 0 0 ! 0)" by blast
  from t have "\<forall>i cur prev. 2 \<le> i \<and> i \<le> 6
         \<and> cur = EclipticLon ?eph (bodyMap ! i) 0
         \<and> prev = EclipticLon ?eph (bodyMap ! i) (0 - 3600000)
         \<and> 0 \<le> cur \<and> cur < 360 \<and> 0 \<le> prev \<and> prev < 360 \<longrightarrow>
         (isRetrograde (calculatePositions ?eph 0 0 0 0 ! i) \<longleftrightarrow>
              cur - prev = - 180 \<or> wrap180 (cur - prev) < 0)"
    by blast
  then have "(2::nat) \<le> 2 \<and> (2::nat) \<le> 6
         \<and> (10::real) = EclipticLon ?eph (bodyMap ! 2) 0
         \<and> (10.5::real) = EclipticLon ?eph (bodyMap ! 2) (0 - 3600000)
         \<and> (0::real) \<le> 10 \<and> (10::real) < 360 \<and> (0::real) \<le> 10.5 \<and> (10.5::real) < 360 \<longrightarrow>
         (isRetrograde (calculatePositions ?eph 0 0 0 0 ! 2) \<longleftrightarrow>
              (10::real) - 10.5 = - 180 \<or> wrap180 (10 - 10.5) < 0)"
    by blast
  then have "isRetrograde (calculatePositions ?eph 0 0 0 0 ! 2)"
    by (simp add: wrap180_def)
  with s show ?thesis by simp
qed

section \<open>The dasha timelines\<close>

subsection \<open>The shape of the loops\<close>

lemma length_mahaLoop: "length (mahaLoop li cur ns) = length ns"
  by (induction ns arbitrary: cur) (simp_all add: Let_def)

lemma length_antarLoop: "length (antarLoop tza L T idx cur ns) = length ns"
  by (induction ns arbitrary: cur) (simp_all add: Let_def split_beta)

lemma length_pratyantarLoop: "length (pratyantarLoop tza G P A idx cur ns) = length ns"
  by (induction ns arbitrary: cur) (simp_all add: Let_def split_beta)

lemma mahaLoop_chain:
  "j < length ns \<Longrightarrow>
     startDate (mahaLoop li cur ns ! j) =
       (if j = 0 then cur else endDate (mahaLoop li cur ns ! (j - 1)))"
proof (induction ns arbitrary: cur j)
  case Nil
  then show ?case by simp
next
  case (Cons n ns)
  show ?case
  proof (cases j)
    case 0
    then show ?thesis by (simp add: Let_def)
  next
    case (Suc k)
    then have "k < length ns" using Cons.prems by simp
    from Cons.IH [OF this] show ?thesis
      using Suc by (cases k) (simp_all add: Let_def)
  qed
qed

lemma antarLoop_chain:
  "j < length ns \<Longrightarrow>
     startDate (antarLoop tza L T idx cur ns ! j) =
       (if j = 0 then cur else endDate (antarLoop tza L T idx cur ns ! (j - 1)))"
proof (induction ns arbitrary: cur j)
  case Nil
  then show ?case by simp
next
  case (Cons n ns)
  show ?case
  proof (cases j)
    case 0
    then show ?thesis by (simp add: Let_def split_beta)
  next
    case (Suc k)
    then have "k < length ns" using Cons.prems by simp
    from Cons.IH [OF this] show ?thesis
      using Suc by (cases k) (simp_all add: Let_def split_beta)
  qed
qed

lemma pratyantarLoop_chain:
  "j < length ns \<Longrightarrow>
     startDate (pratyantarLoop tza G P A idx cur ns ! j) =
       (if j = 0 then cur else endDate (pratyantarLoop tza G P A idx cur ns ! (j - 1)))"
proof (induction ns arbitrary: cur j)
  case Nil
  then show ?case by simp
next
  case (Cons n ns)
  show ?case
  proof (cases j)
    case 0
    then show ?thesis by (simp add: Let_def split_beta)
  next
    case (Suc k)
    then have "k < length ns" using Cons.prems by simp
    from Cons.IH [OF this] show ?thesis
      using Suc by (cases k) (simp_all add: Let_def split_beta)
  qed
qed

lemma length_calculateMahadashas: "length (calculateMahadashas tza moonLon birth) = 9"
  by (simp add: calculateMahadashas_def Let_def split_beta length_mahaLoop)

lemma length_calculateAntarDashas: "length (calculateAntarDashas tza L start) = 9"
  by (simp add: calculateAntarDashas_def Let_def length_antarLoop)

lemma length_calculatePratyantarDashas: "length (calculatePratyantarDashas tza G P start) = 9"
  by (simp add: calculatePratyantarDashas_def Let_def length_pratyantarLoop)

lemma calculateMahadashas_shape:
  "\<exists>x li. calculateMahadashas tza moonLon birth = x # mahaLoop li (endDate x) [1..<9]
     \<and> startDate x = birth"
  by (auto simp add: calculateMahadashas_def Let_def split_beta)

lemma maha_contiguous:
  "startDate (calculateMahadashas tza moonLon birth ! 0) = birth
   \<and> (\<forall>i. 1 \<le> i \<and> i \<le> 8 \<longrightarrow>
         startDate (calculateMahadashas tza moonLon birth ! i) =
         endDate (calculateMahadashas tza moonLon birth ! (i - 1)))"
proof -
  obtain x li where sh: "calculateMahadashas tza moonLon birth = x # mahaLoop li (endDate x) [1..<9]"
    and st: "startDate x = birth"
    using calculateMahadashas_shape by blast
  have "startDate ((x # mahaLoop li (endDate x) [1..<9]) ! i) =
        endDate ((x # mahaLoop li (endDate x) [1..<9]) ! (i - 1))"
    if i: "1 \<le> i" "i \<le> 8" for i
  proof -
    obtain k where k: "i = Suc k" using i by (cases i) simp_all
    then have "k < length [1..<9::nat]" using i by simp
    from mahaLoop_chain [OF this, of li "endDate x"] show ?thesis
      using k by (cases k) simp_all
  qed
  then show ?thesis using st by (simp add: sh)
qed

lemma antar_contiguous:
  "startDate (calculateAntarDashas tza L start ! 0) = start
   \<and> (\<forall>i. 1 \<le> i \<and> i \<le> 8 \<longrightarrow>
         startDate (calculateAntarDashas tza L start ! i) =
         endDate (calculateAntarDashas tza L start ! (i - 1)))"
proof -
  have "startDate (calculateAntarDashas tza L start ! j) =
      (if j = 0 then start else endDate (calculateAntarDashas tza L start ! (j - 1)))"
    if "j < 9" for j
    using that antarLoop_chain [of j "[0..<9]"] by (simp add: calculateAntarDashas_def Let_def)
  then show ?thesis by auto
qed

lemma pratyantar_contiguous:
  "startDate (calculatePratyantarDashas tza G P start ! 0) = start
   \<and> (\<forall>i. 1 \<le> i \<and> i \<le> 8 \<longrightarrow>
         startDate (calculatePratyantarDashas tza G P start ! i) =
         endDate (calculatePratyantarDashas tza G P start ! (i - 1)))"
proof -
  have "startDate (calculatePratyantarDashas tza G P start ! j) =
      (if j = 0 then start else endDate (calculatePratyantarDashas tza G P start ! (j - 1)))"
    if "j < 9" for j
    using that pratyantarLoop_chain [of j "[0..<9]"]
    by (simp add: calculatePratyantarDashas_def Let_def)
  then show ?thesis by auto
qed

subsection \<open>Exact dates of the sub-periods\<close>

text \<open>
  In exact arithmetic a mean year has 31 556 952 000 milliseconds, a multiple of
  14 400. The duration of every period of the second and third level is therefore a
  whole number of milliseconds there, and \<open>addTime\<close> adds it without truncation as long
  as the sum stays within the range of dates. In the program's doubles the product
  \<open>365.2425 * 24 * 60 * 60 * 1000\<close> is \<open>31556951999.999996\<close>, so a boundary can fall one
  millisecond earlier than the one computed here.
\<close>

lemma trunc_of_int: "trunc (of_int n) = n"
  by (simp add: trunc_def)

lemma addTime_exact:
  assumes "yrs * msPerYear = of_int k"
    and "- 8640000000000000 \<le> t + k" and "t + k \<le> 8640000000000000"
  shows "addTime (Some t) (Some yrs) = Some (t + k)"
proof -
  have "of_int t + yrs * msPerYear = of_int (t + k)" using assms(1) by simp
  moreover have "\<bar>real_of_int (t + k)\<bar> \<le> 8640000000000000"
    using assms(2,3) by linarith
  ultimately show ?thesis
    by (simp only: addTime_def TimeClip_def Let_def option.case trunc_of_int if_True)
qed

lemma sum_list_nonneg_int:
  fixes f :: "nat \<Rightarrow> int"
  shows "\<forall>n\<in>set ns. 0 \<le> f n \<Longrightarrow> 0 \<le> (\<Sum>n\<leftarrow>ns. f n)"
  by (induction ns) simp_all

lemma antarLoop_dates:
  fixes Y :: "nat \<Rightarrow> int"
  assumes "\<forall>n\<in>set ns. years_of (elem_at NAKSHATRA_LORDS (irem (idx + int n) 9)) = Some (Y n)
              \<and> 0 \<le> Y n
              \<and> (of_int T * of_int (Y n) / 120) * msPerYear = of_int (K * Y n)"
    and "0 \<le> K"
    and "- 8640000000000000 \<le> s" and "s + K * (\<Sum>n\<leftarrow>ns. Y n) \<le> 8640000000000000"
    and "j < length ns"
  shows "startDate (antarLoop tza L (Some T) idx (Some s) ns ! j) =
           Some (s + K * (\<Sum>n\<leftarrow>take j ns. Y n))
       \<and> endDate (antarLoop tza L (Some T) idx (Some s) ns ! j) =
           Some (s + K * (\<Sum>n\<leftarrow>take (Suc j) ns. Y n))"
  using assms
proof (induction ns arbitrary: s j)
  case Nil
  then show ?case by simp
next
  case (Cons n ns)
  have yn: "years_of (elem_at NAKSHATRA_LORDS (irem (idx + int n) 9)) = Some (Y n)"
    and y0: "0 \<le> Y n"
    and ky: "(of_int T * of_int (Y n) / 120) * msPerYear = of_int (K * Y n)"
    using Cons.prems(1) by simp_all
  have rest0: "0 \<le> (\<Sum>n\<leftarrow>ns. Y n)"
    using Cons.prems(1) by (intro sum_list_nonneg_int) simp
  have k1: "0 \<le> K * Y n" using y0 Cons.prems(2) by simp
  have k2: "0 \<le> K * (\<Sum>n\<leftarrow>ns. Y n)" using rest0 Cons.prems(2) by simp
  have tot: "s + K * Y n + K * (\<Sum>n\<leftarrow>ns. Y n) \<le> 8640000000000000"
    using Cons.prems(4) by (simp add: algebra_simps)
  have e: "addTime (Some s) (Some (of_int T * of_int (Y n) / 120)) = Some (s + K * Y n)"
    using k1 k2 tot Cons.prems(3) by (intro addTime_exact [OF ky]) linarith+
  show ?case
  proof (cases j)
    case 0
    then show ?thesis by (simp add: Let_def split_beta yn subDuration_def e)
  next
    case (Suc k)
    have "startDate (antarLoop tza L (Some T) idx (Some (s + K * Y n)) ns ! k) =
           Some (s + K * Y n + K * (\<Sum>n\<leftarrow>take k ns. Y n))
       \<and> endDate (antarLoop tza L (Some T) idx (Some (s + K * Y n)) ns ! k) =
           Some (s + K * Y n + K * (\<Sum>n\<leftarrow>take (Suc k) ns. Y n))"
    proof (rule Cons.IH)
      show "\<forall>n\<in>set ns. years_of (elem_at NAKSHATRA_LORDS (irem (idx + int n) 9)) = Some (Y n)
              \<and> 0 \<le> Y n
              \<and> (of_int T * of_int (Y n) / 120) * msPerYear = of_int (K * Y n)"
        using Cons.prems(1) by simp
      show "0 \<le> K" by (rule Cons.prems(2))
      show "- 8640000000000000 \<le> s + K * Y n" using k1 Cons.prems(3) by linarith
      show "s + K * Y n + K * (\<Sum>n\<leftarrow>ns. Y n) \<le> 8640000000000000" by (rule tot)
      show "k < length ns" using Cons.prems(5) Suc by simp
    qed
    then show ?thesis
      using Suc by (simp add: Let_def split_beta yn subDuration_def e algebra_simps)
  qed
qed

lemma pratyantarLoop_dates:
  fixes Y :: "nat \<Rightarrow> int"
  assumes "\<forall>n\<in>set ns. years_of (elem_at NAKSHATRA_LORDS (irem (idx + int n) 9)) = Some (Y n)
              \<and> 0 \<le> Y n
              \<and> (A * of_int (Y n) / 120) * msPerYear = of_int (K * Y n)"
    and "0 \<le> K"
    and "- 8640000000000000 \<le> s" and "s + K * (\<Sum>n\<leftarrow>ns. Y n) \<le> 8640000000000000"
    and "j < length ns"
  shows "startDate (pratyantarLoop tza G P (Some A) idx (Some s) ns ! j) =
           Some (s + K * (\<Sum>n\<leftarrow>take j ns. Y n))
       \<and> endDate (pratyantarLoop tza G P (Some A) idx (Some s) ns ! j) =
           Some (s + K * (\<Sum>n\<leftarrow>take (Suc j) ns. Y n))"
  using assms
proof (induction ns arbitrary: s j)
  case Nil
  then show ?case by simp
next
  case (Cons n ns)
  have yn: "years_of (elem_at NAKSHATRA_LORDS (irem (idx + int n) 9)) = Some (Y n)"
    and y0: "0 \<le> Y n"
    and ky: "(A * of_int (Y n) / 120) * msPerYear = of_int (K * Y n)"
    using Cons.prems(1) by simp_all
  have rest0: "0 \<le> (\<Sum>n\<leftarrow>ns. Y n)"
    using Cons.prems(1) by (intro sum_list_nonneg_int) simp
  have k1: "0 \<le> K * Y n" using y0 Cons.prems(2) by simp
  have k2: "0 \<le> K * (\<Sum>n\<leftarrow>ns. Y n)" using rest0 Cons.prems(2) by simp
  have tot: "s + K * Y n + K * (\<Sum>n\<leftarrow>ns. Y n) \<le> 8640000000000000"
    using Cons.prems(4) by (simp add: algebra_simps)
  have e: "addTime (Some s) (Some (A * of_int (Y n) / 120)) = Some (s + K * Y n)"
    using k1 k2 tot Cons.prems(3) by (intro addTime_exact [OF ky]) linarith+
  show ?case
  proof (cases j)
    case 0
    then show ?thesis by (simp add: Let_def split_beta yn subDuration_def e)
  next
    case (Suc k)
    have "startDate (pratyantarLoop tza G P (Some A) idx (Some (s + K * Y n)) ns ! k) =
           Some (s + K * Y n + K * (\<Sum>n\<leftarrow>take k ns. Y n))
       \<and> endDate (pratyantarLoop tza G P (Some A) idx (Some (s + K * Y n)) ns ! k) =
           Some (s + K * Y n + K * (\<Sum>n\<leftarrow>take (Suc k) ns. Y n))"
    proof (rule Cons.IH)
      show "\<forall>n\<in>set ns. years_of (elem_at NAKSHATRA_LORDS (irem (idx + int n) 9)) = Some (Y n)
              \<and> 0 \<le> Y n
              \<and> (A * of_int (Y n) / 120) * msPerYear = of_int (K * Y n)"
        using Cons.prems(1) by simp
      show "0 \<le> K" by (rule Cons.prems(2))
      show "- 8640000000000000 \<le> s + K * Y n" using k1 Cons.prems(3) by linarith
      show "s + K * Y n + K * (\<Sum>n\<leftarrow>ns. Y n) \<le> 8640000000000000" by (rule tot)
      show "k < length ns" using Cons.prems(5) Suc by simp
    qed
    then show ?thesis
      using Suc by (simp add: Let_def split_beta yn subDuration_def e algebra_simps)
  qed
qed

lemma lord_cases:
  assumes "DASHA_YEARS L = Some T"
  shows "(L, T, indexOf NAKSHATRA_LORDS L) \<in>
     {(''Ketu'', 7, 0), (''Shukra'', 20, 1), (''Surya'', 6, 2), (''Chandra'', 10, 3),
      (''Kuja'', 7, 4), (''Rahu'', 18, 5), (''Guru'', 16, 6), (''Shani'', 19, 7),
      (''Budha'', 17, 8)}"
  using assms
  by (auto simp add: DASHA_YEARS_def indexOf_def NAKSHATRA_LORDS_def split: if_splits)

lemma irem_nonneg: "0 \<le> a \<Longrightarrow> irem a 9 = a mod 9"
  by (simp add: irem_def sgn_if)

lemma years_cycle:
  assumes "0 \<le> m" "m < 9"
  shows "years_of (elem_at NAKSHATRA_LORDS m) = Some ([7, 20, 6, 10, 7, 18, 16, 19, 17] ! nat m)"
proof -
  from assms have "m = 0 \<or> m = 1 \<or> m = 2 \<or> m = 3 \<or> m = 4 \<or> m = 5 \<or> m = 6 \<or> m = 7 \<or> m = 8"
    by arith
  then show ?thesis
    by (elim disjE)
       (simp_all add: years_of_def elem_at_def NAKSHATRA_LORDS_def DASHA_YEARS_def)
qed

lemma upt_9: "[0..<9] = [0, 1, 2, 3, 4, 5, 6, 7, 8::nat]"
  by (simp add: upt_conv_Cons)

lemma cycle_sum:
  assumes "0 \<le> idx" "idx < 9"
  shows "(\<Sum>n\<leftarrow>[0..<9]. [7, 20, 6, 10, 7, 18, 16, 19, 17::int] ! nat ((idx + int n) mod 9)) = 120"
proof -
  from assms have "idx = 0 \<or> idx = 1 \<or> idx = 2 \<or> idx = 3 \<or> idx = 4 \<or> idx = 5 \<or> idx = 6
      \<or> idx = 7 \<or> idx = 8"
    by arith
  then show ?thesis
    by (elim disjE) (simp_all add: upt_9)
qed

lemma msPerYear_value: "msPerYear = 31556952000"
  by (simp add: msPerYear_def)

lemma take_upt_sum:
  fixes Y :: "nat \<Rightarrow> int"
  assumes "j < m"
  shows "(\<Sum>n\<leftarrow>take (Suc j) [0..<m]. Y n) = (\<Sum>n\<leftarrow>take j [0..<m]. Y n) + Y j"
  using assms by (simp add: take_Suc_conv_app_nth)

lemma cycle_nonneg:
  assumes "0 \<le> m" "m < 9"
  shows "0 \<le> [7, 20, 6, 10, 7, 18, 16, 19, 17::int] ! nat m"
proof -
  from assms have "m = 0 \<or> m = 1 \<or> m = 2 \<or> m = 3 \<or> m = 4 \<or> m = 5 \<or> m = 6 \<or> m = 7 \<or> m = 8"
    by arith
  then show ?thesis by (elim disjE) simp_all
qed

lemma antar_dates_explicit:
  assumes L: "DASHA_YEARS L = Some T"
    and lo: "- 8640000000000000 \<le> s" and hi: "s + T * 31556952000 \<le> 8640000000000000"
    and j: "j < 9"
  shows "startDate (calculateAntarDashas tza L (Some s) ! j) =
           Some (s + T * 262974600 *
             (\<Sum>n\<leftarrow>take j [0..<9]. [7, 20, 6, 10, 7, 18, 16, 19, 17] !
                nat ((indexOf NAKSHATRA_LORDS L + int n) mod 9)))"
    and "endDate (calculateAntarDashas tza L (Some s) ! j) =
           Some (s + T * 262974600 *
             (\<Sum>n\<leftarrow>take (Suc j) [0..<9]. [7, 20, 6, 10, 7, 18, 16, 19, 17] !
                nat ((indexOf NAKSHATRA_LORDS L + int n) mod 9)))"
proof -
  let ?idx = "indexOf NAKSHATRA_LORDS L"
  let ?DY = "[7, 20, 6, 10, 7, 18, 16, 19, 17::int]"
  let ?Y = "\<lambda>n. ?DY ! nat ((?idx + int n) mod 9)"
  let ?K = "T * 262974600"
  have c: "(L, T, ?idx) \<in>
     {(''Ketu'', 7, 0), (''Shukra'', 20, 1), (''Surya'', 6, 2), (''Chandra'', 10, 3),
      (''Kuja'', 7, 4), (''Rahu'', 18, 5), (''Guru'', 16, 6), (''Shani'', 19, 7),
      (''Budha'', 17, 8)}"
    by (rule lord_cases [OF L])
  then have idx: "0 \<le> ?idx" "?idx < 9" and T0: "0 \<le> T" by auto
  have Ypos: "0 \<le> ?Y n" for n
    by (rule cycle_nonneg) simp_all
  have Yy: "years_of (elem_at NAKSHATRA_LORDS (irem (?idx + int n) 9)) = Some (?Y n)" for n
  proof -
    have "irem (?idx + int n) 9 = (?idx + int n) mod 9" using idx by (simp add: irem_nonneg)
    then show ?thesis by (simp add: years_cycle)
  qed
  have KY: "(of_int T * of_int (?Y n) / 120) * msPerYear = of_int (?K * ?Y n)" for n
    by (simp add: msPerYear_value)
  have tot: "(\<Sum>n\<leftarrow>[0..<9]. ?Y n) = 120" by (rule cycle_sum [OF idx])
  have "startDate (antarLoop tza L (Some T) ?idx (Some s) [0..<9] ! j) =
           Some (s + ?K * (\<Sum>n\<leftarrow>take j [0..<9]. ?Y n))
       \<and> endDate (antarLoop tza L (Some T) ?idx (Some s) [0..<9] ! j) =
           Some (s + ?K * (\<Sum>n\<leftarrow>take (Suc j) [0..<9]. ?Y n))"
  proof (rule antarLoop_dates)
    show "\<forall>n\<in>set [0..<9]. years_of (elem_at NAKSHATRA_LORDS (irem (?idx + int n) 9)) = Some (?Y n)
              \<and> 0 \<le> ?Y n
              \<and> (of_int T * of_int (?Y n) / 120) * msPerYear = of_int (?K * ?Y n)"
      using Yy Ypos KY by blast
    show "0 \<le> ?K" using T0 by simp
    show "- 8640000000000000 \<le> s" by (rule lo)
    show "s + ?K * (\<Sum>n\<leftarrow>[0..<9]. ?Y n) \<le> 8640000000000000"
      using hi by (simp only: tot)
    show "j < length [0..<9]" using j by simp
  qed
  then show "startDate (calculateAntarDashas tza L (Some s) ! j) =
           Some (s + ?K * (\<Sum>n\<leftarrow>take j [0..<9]. ?Y n))"
    and "endDate (calculateAntarDashas tza L (Some s) ! j) =
           Some (s + ?K * (\<Sum>n\<leftarrow>take (Suc j) [0..<9]. ?Y n))"
    by (simp_all only: calculateAntarDashas_def L Let_def)
qed

lemma lord_years_at:
  assumes L: "DASHA_YEARS L = Some T"
  shows "years_of (elem_at NAKSHATRA_LORDS (irem (indexOf NAKSHATRA_LORDS L + int n) 9)) =
     Some ([7, 20, 6, 10, 7, 18, 16, 19, 17] ! nat ((indexOf NAKSHATRA_LORDS L + int n) mod 9))"
    and "0 \<le> indexOf NAKSHATRA_LORDS L" and "indexOf NAKSHATRA_LORDS L < 9" and "0 \<le> T"
proof -
  let ?idx = "indexOf NAKSHATRA_LORDS L"
  have "(L, T, ?idx) \<in>
     {(''Ketu'', 7, 0), (''Shukra'', 20, 1), (''Surya'', 6, 2), (''Chandra'', 10, 3),
      (''Kuja'', 7, 4), (''Rahu'', 18, 5), (''Guru'', 16, 6), (''Shani'', 19, 7),
      (''Budha'', 17, 8)}"
    by (rule lord_cases [OF L])
  then show idx: "0 \<le> ?idx" "?idx < 9" and "0 \<le> T" by auto
  have "irem (?idx + int n) 9 = (?idx + int n) mod 9" using idx by (simp add: irem_nonneg)
  then show "years_of (elem_at NAKSHATRA_LORDS (irem (?idx + int n) 9)) =
     Some ([7, 20, 6, 10, 7, 18, 16, 19, 17] ! nat ((?idx + int n) mod 9))"
    by (simp add: years_cycle)
qed

lemma antar_dates:
  assumes L: "DASHA_YEARS L = Some T"
    and lo: "- 8640000000000000 \<le> s" and hi: "s + T * 31556952000 \<le> 8640000000000000"
    and j: "j < 9"
  shows "\<exists>a Y. startDate (calculateAntarDashas tza L (Some s) ! j) = Some a
     \<and> endDate (calculateAntarDashas tza L (Some s) ! j) = Some (a + T * 262974600 * Y)
     \<and> 0 \<le> Y
     \<and> years_of (elem_at NAKSHATRA_LORDS (irem (indexOf NAKSHATRA_LORDS L + int j) 9)) = Some Y"
proof -
  let ?Y = "\<lambda>n. [7, 20, 6, 10, 7, 18, 16, 19, 17::int] !
     nat ((indexOf NAKSHATRA_LORDS L + int n) mod 9)"
  have "endDate (calculateAntarDashas tza L (Some s) ! j) =
      Some (s + T * 262974600 * (\<Sum>n\<leftarrow>take j [0..<9]. ?Y n) + T * 262974600 * ?Y j)"
    using antar_dates_explicit(2) [OF L lo hi j, of tza] j
    by (simp add: take_upt_sum algebra_simps)
  moreover have "0 \<le> ?Y j" by (rule cycle_nonneg) simp_all
  ultimately show ?thesis
    using antar_dates_explicit(1) [OF L lo hi j, of tza] lord_years_at(1) [OF L, of j]
    by blast
qed

lemma pratyantar_dates:
  assumes G: "DASHA_YEARS G = Some TG" and P: "DASHA_YEARS P = Some TP"
    and lo: "- 8640000000000000 \<le> s"
    and hi: "s + TG * TP * 262974600 \<le> 8640000000000000"
    and j: "j < 9"
  shows "\<exists>a Y. startDate (calculatePratyantarDashas tza G P (Some s) ! j) = Some a
     \<and> endDate (calculatePratyantarDashas tza G P (Some s) ! j) = Some (a + TG * TP * 2191455 * Y)
     \<and> 0 \<le> Y
     \<and> years_of (elem_at NAKSHATRA_LORDS (irem (indexOf NAKSHATRA_LORDS P + int j) 9)) = Some Y
     \<and> (j = 8 \<longrightarrow> a + TG * TP * 2191455 * Y = s + TG * TP * 262974600)"
proof -
  let ?idx = "indexOf NAKSHATRA_LORDS P"
  let ?DY = "[7, 20, 6, 10, 7, 18, 16, 19, 17::int]"
  let ?Y = "\<lambda>n. ?DY ! nat ((?idx + int n) mod 9)"
  let ?K = "TG * TP * 2191455"
  let ?A = "real_of_int TG * real_of_int TP / 120"
  have "(P, TP, ?idx) \<in>
     {(''Ketu'', 7, 0), (''Shukra'', 20, 1), (''Surya'', 6, 2), (''Chandra'', 10, 3),
      (''Kuja'', 7, 4), (''Rahu'', 18, 5), (''Guru'', 16, 6), (''Shani'', 19, 7),
      (''Budha'', 17, 8)}"
    by (rule lord_cases [OF P])
  then have idx: "0 \<le> ?idx" "?idx < 9" and TP0: "0 \<le> TP" by auto
  have "(G, TG, indexOf NAKSHATRA_LORDS G) \<in>
     {(''Ketu'', 7, 0), (''Shukra'', 20, 1), (''Surya'', 6, 2), (''Chandra'', 10, 3),
      (''Kuja'', 7, 4), (''Rahu'', 18, 5), (''Guru'', 16, 6), (''Shani'', 19, 7),
      (''Budha'', 17, 8)}"
    by (rule lord_cases [OF G])
  then have TG0: "0 \<le> TG" by auto
  have Ypos: "0 \<le> ?Y n" for n
    by (rule cycle_nonneg) simp_all
  have Yy: "years_of (elem_at NAKSHATRA_LORDS (irem (?idx + int n) 9)) = Some (?Y n)" for n
  proof -
    have "irem (?idx + int n) 9 = (?idx + int n) mod 9" using idx by (simp add: irem_nonneg)
    then show ?thesis by (simp add: years_cycle)
  qed
  have KY: "(?A * of_int (?Y n) / 120) * msPerYear = of_int (?K * ?Y n)" for n
    by (simp add: msPerYear_value)
  have tot: "(\<Sum>n\<leftarrow>[0..<9]. ?Y n) = 120" by (rule cycle_sum [OF idx])
  have K0: "0 \<le> ?K" using TG0 TP0 by simp
  have "startDate (pratyantarLoop tza G P (Some ?A) ?idx (Some s) [0..<9] ! j) =
           Some (s + ?K * (\<Sum>n\<leftarrow>take j [0..<9]. ?Y n))
       \<and> endDate (pratyantarLoop tza G P (Some ?A) ?idx (Some s) [0..<9] ! j) =
           Some (s + ?K * (\<Sum>n\<leftarrow>take (Suc j) [0..<9]. ?Y n))"
  proof (rule pratyantarLoop_dates)
    show "\<forall>n\<in>set [0..<9]. years_of (elem_at NAKSHATRA_LORDS (irem (?idx + int n) 9)) = Some (?Y n)
              \<and> 0 \<le> ?Y n
              \<and> (?A * of_int (?Y n) / 120) * msPerYear = of_int (?K * ?Y n)"
      using Yy Ypos KY by blast
    show "0 \<le> ?K" by (rule K0)
    show "- 8640000000000000 \<le> s" by (rule lo)
    show "s + ?K * (\<Sum>n\<leftarrow>[0..<9]. ?Y n) \<le> 8640000000000000"
      using hi by (simp only: tot)
    show "j < length [0..<9]" using j by simp
  qed
  then have d: "startDate (calculatePratyantarDashas tza G P (Some s) ! j) =
           Some (s + ?K * (\<Sum>n\<leftarrow>take j [0..<9]. ?Y n))"
       "endDate (calculatePratyantarDashas tza G P (Some s) ! j) =
           Some (s + ?K * (\<Sum>n\<leftarrow>take j [0..<9]. ?Y n) + ?K * ?Y j)"
    using j
    by (simp_all add: calculatePratyantarDashas_def G P subDuration_def take_upt_sum
          algebra_simps)
  have last: "s + ?K * (\<Sum>n\<leftarrow>take j [0..<9]. ?Y n) + ?K * ?Y j = s + TG * TP * 262974600"
    if "j = 8"
  proof -
    have "(\<Sum>n\<leftarrow>take 8 [0..<9]. ?Y n) + ?Y 8 = (\<Sum>n\<leftarrow>[0..<9]. ?Y n)"
      using take_upt_sum [of 8 9 ?Y] by simp
    then have "(\<Sum>n\<leftarrow>take 8 [0..<9]. ?Y n) + ?Y 8 = 120" by (simp only: tot)
    then have "?K * (\<Sum>n\<leftarrow>take 8 [0..<9]. ?Y n) + ?K * ?Y 8 = ?K * 120"
      by (simp only: distrib_left [symmetric])
    then show ?thesis using that by simp
  qed
  show ?thesis using d Ypos [of j] Yy [of j] last by blast
qed

lemma sum_list_by_index:
  fixes f :: "'a \<Rightarrow> real"
  assumes "length xs = 9"
  shows "(\<Sum>x\<leftarrow>xs. f x) = (\<Sum>j\<leftarrow>[0..<9]. f (xs ! j))"
proof -
  have "map (\<lambda>j. f (xs ! j)) [0..<length xs] = map f (map ((!) xs) [0..<length xs])"
    by (simp only: map_map comp_def)
  also have "\<dots> = map f xs" by (simp only: map_nth)
  finally have "(\<Sum>x\<leftarrow>xs. f x) = (\<Sum>j\<leftarrow>[0..<length xs]. f (xs ! j))"
    by (rule arg_cong [where f = sum_list, symmetric])
  then show ?thesis by (simp only: assms)
qed

lemma scaled_cycle_sum:
  fixes c :: real
  assumes "0 \<le> idx" "idx < 9"
  shows "(\<Sum>j\<leftarrow>[0..<9]. c * of_int ([7, 20, 6, 10, 7, 18, 16, 19, 17] ! nat ((idx + int j) mod 9)) / 120)
         = c"
proof -
  from assms have "idx = 0 \<or> idx = 1 \<or> idx = 2 \<or> idx = 3 \<or> idx = 4 \<or> idx = 5 \<or> idx = 6
      \<or> idx = 7 \<or> idx = 8"
    by arith
  then show ?thesis
    by (elim disjE) (simp_all add: upt_9)
qed

lemma antar_spans:
  assumes L: "DASHA_YEARS L = Some T"
    and lo: "- 8640000000000000 \<le> s" and hi: "s + T * 31556952000 \<le> 8640000000000000"
  shows "list_all (\<lambda>x. startDate x \<noteq> None \<and> endDate x \<noteq> None)
           (calculateAntarDashas tza L (Some s))
       \<and> (\<Sum>x\<leftarrow>calculateAntarDashas tza L (Some s).
             (of_int (the (endDate x)) - of_int (the (startDate x))) / msPerYear) = of_int T
       \<and> (\<Sum>n\<leftarrow>[0..<9]. the (subDuration (Some (of_int T))
             (years_of (elem_at NAKSHATRA_LORDS (irem (indexOf NAKSHATRA_LORDS L + int n) 9)))))
           = of_int T"
proof -
  let ?ds = "calculateAntarDashas tza L (Some s)"
  let ?idx = "indexOf NAKSHATRA_LORDS L"
  let ?Y = "\<lambda>n. [7, 20, 6, 10, 7, 18, 16, 19, 17::int] ! nat ((?idx + int n) mod 9)"
  let ?f = "\<lambda>x. (real_of_int (the (endDate x)) - of_int (the (startDate x))) / msPerYear"
  have "(L, T, ?idx) \<in>
     {(''Ketu'', 7, 0), (''Shukra'', 20, 1), (''Surya'', 6, 2), (''Chandra'', 10, 3),
      (''Kuja'', 7, 4), (''Rahu'', 18, 5), (''Guru'', 16, 6), (''Shani'', 19, 7),
      (''Budha'', 17, 8)}"
    by (rule lord_cases [OF L])
  then have idx: "0 \<le> ?idx" "?idx < 9" by auto
  have Yy: "years_of (elem_at NAKSHATRA_LORDS (irem (?idx + int n) 9)) = Some (?Y n)" for n
  proof -
    have "irem (?idx + int n) 9 = (?idx + int n) mod 9" using idx by (simp add: irem_nonneg)
    then show ?thesis by (simp add: years_cycle)
  qed
  have len: "length ?ds = 9" by (rule length_calculateAntarDashas)
  have item: "startDate (?ds ! j) \<noteq> None \<and> endDate (?ds ! j) \<noteq> None
      \<and> ?f (?ds ! j) = of_int T * of_int (?Y j) / 120" if j: "j < 9" for j
  proof -
    obtain a Y where a: "startDate (?ds ! j) = Some a"
      and b: "endDate (?ds ! j) = Some (a + T * 262974600 * Y)"
      and y: "years_of (elem_at NAKSHATRA_LORDS (irem (?idx + int j) 9)) = Some Y"
      using antar_dates [OF L lo hi j, of tza] by blast
    from y Yy [of j] have "Y = ?Y j" by simp
    then show ?thesis by (simp add: a b msPerYear_value)
  qed
  have valid: "list_all (\<lambda>x. startDate x \<noteq> None \<and> endDate x \<noteq> None) ?ds"
    using item len by (simp add: list_all_length)
  have "(\<Sum>x\<leftarrow>?ds. ?f x) = (\<Sum>j\<leftarrow>[0..<9]. ?f (?ds ! j))"
    by (rule sum_list_by_index [OF len])
  also have "\<dots> = (\<Sum>j\<leftarrow>[0..<9]. of_int T * of_int (?Y j) / 120)"
    using item by (intro arg_cong [where f = sum_list] map_cong) simp_all
  also have "\<dots> = of_int T" by (rule scaled_cycle_sum [OF idx])
  finally have spans: "(\<Sum>x\<leftarrow>?ds. ?f x) = of_int T" .
  have "(\<Sum>n\<leftarrow>[0..<9]. the (subDuration (Some (of_int T))
             (years_of (elem_at NAKSHATRA_LORDS (irem (?idx + int n) 9)))))
        = (\<Sum>j\<leftarrow>[0..<9]. of_int T * of_int (?Y j) / 120)"
    by (simp only: Yy) (simp add: subDuration_def)
  also have "\<dots> = of_int T" by (rule scaled_cycle_sum [OF idx])
  finally show ?thesis using valid spans by blast
qed

lemma pratyantar_spans:
  assumes G: "DASHA_YEARS G = Some TG" and P: "DASHA_YEARS P = Some TP"
    and lo: "- 8640000000000000 \<le> s"
    and hi: "s + TG * TP * 262974600 \<le> 8640000000000000"
  shows "list_all (\<lambda>x. startDate x \<noteq> None \<and> endDate x \<noteq> None)
           (calculatePratyantarDashas tza G P (Some s))
       \<and> (\<Sum>x\<leftarrow>calculatePratyantarDashas tza G P (Some s).
             (of_int (the (endDate x)) - of_int (the (startDate x))) / msPerYear)
           = of_int TG * of_int TP / 120
       \<and> (\<Sum>n\<leftarrow>[0..<9]. the (subDuration (Some (of_int TG * of_int TP / 120))
             (years_of (elem_at NAKSHATRA_LORDS (irem (indexOf NAKSHATRA_LORDS P + int n) 9)))))
           = of_int TG * of_int TP / 120"
proof -
  let ?ds = "calculatePratyantarDashas tza G P (Some s)"
  let ?idx = "indexOf NAKSHATRA_LORDS P"
  let ?Y = "\<lambda>n. [7, 20, 6, 10, 7, 18, 16, 19, 17::int] ! nat ((?idx + int n) mod 9)"
  let ?f = "\<lambda>x. (real_of_int (the (endDate x)) - of_int (the (startDate x))) / msPerYear"
  let ?A = "real_of_int TG * real_of_int TP / 120"
  have "(P, TP, ?idx) \<in>
     {(''Ketu'', 7, 0), (''Shukra'', 20, 1), (''Surya'', 6, 2), (''Chandra'', 10, 3),
      (''Kuja'', 7, 4), (''Rahu'', 18, 5), (''Guru'', 16, 6), (''Shani'', 19, 7),
      (''Budha'', 17, 8)}"
    by (rule lord_cases [OF P])
  then have idx: "0 \<le> ?idx" "?idx < 9" by auto
  have Yy: "years_of (elem_at NAKSHATRA_LORDS (irem (?idx + int n) 9)) = Some (?Y n)" for n
  proof -
    have "irem (?idx + int n) 9 = (?idx + int n) mod 9" using idx by (simp add: irem_nonneg)
    then show ?thesis by (simp add: years_cycle)
  qed
  have len: "length ?ds = 9" by (rule length_calculatePratyantarDashas)
  have item: "startDate (?ds ! j) \<noteq> None \<and> endDate (?ds ! j) \<noteq> None
      \<and> ?f (?ds ! j) = ?A * of_int (?Y j) / 120" if j: "j < 9" for j
  proof -
    obtain a Y where a: "startDate (?ds ! j) = Some a"
      and b: "endDate (?ds ! j) = Some (a + TG * TP * 2191455 * Y)"
      and y: "years_of (elem_at NAKSHATRA_LORDS (irem (?idx + int j) 9)) = Some Y"
      using pratyantar_dates [OF G P lo hi j, of tza] by blast
    from y Yy [of j] have "Y = ?Y j" by simp
    then show ?thesis by (simp add: a b msPerYear_value)
  qed
  have valid: "list_all (\<lambda>x. startDate x \<noteq> None \<and> endDate x \<noteq> None) ?ds"
    using item len by (simp add: list_all_length)
  have "(\<Sum>x\<leftarrow>?ds. ?f x) = (\<Sum>j\<leftarrow>[0..<9]. ?f (?ds ! j))"
    by (rule sum_list_by_index [OF len])
  also have "\<dots> = (\<Sum>j\<leftarrow>[0..<9]. ?A * of_int (?Y j) / 120)"
    using item by (intro arg_cong [where f = sum_list] map_cong) simp_all
  also have "\<dots> = ?A" by (rule scaled_cycle_sum [OF idx])
  finally have spans: "(\<Sum>x\<leftarrow>?ds. ?f x) = ?A" .
  have "(\<Sum>n\<leftarrow>[0..<9]. the (subDuration (Some ?A)
             (years_of (elem_at NAKSHATRA_LORDS (irem (?idx + int n) 9)))))
        = (\<Sum>j\<leftarrow>[0..<9]. ?A * of_int (?Y j) / 120)"
    by (simp only: Yy) (simp add: subDuration_def)
  also have "\<dots> = ?A" by (rule scaled_cycle_sum [OF idx])
  finally show ?thesis using valid spans by blast
qed

text \<open>
  Claim C1, amended. Let \<open>L\<close>, \<open>G\<close> and \<open>P\<close> be lords and let the start instant be a
  valid date such that the parent period ends within the range of dates. The nine
  durations \<open>DASHA_YEARS[L] * DASHA_YEARS[sub] / 120\<close> that \<open>calculateAntarDashas\<close> lays end
  to end sum to \<open>DASHA_YEARS[L]\<close>, every returned date is valid, and the spans
  \<open>endDate - startDate\<close> of the nine returned periods, in mean years of 365.2425 days,
  sum to \<open>DASHA_YEARS[L]\<close>; for \<open>calculatePratyantarDashas\<close> both sums are
  \<open>DASHA_YEARS[G] * DASHA_YEARS[P] / 120\<close>. (The returned fields \<open>durationYear\<close> are the
  calendar components of the spans and are not claimed to sum to anything.)
\<close>

theorem sub_periods_sum_to_parent:
  assumes "DASHA_YEARS L = Some T" and "DASHA_YEARS G = Some TG" and "DASHA_YEARS P = Some TP"
    and "- 8640000000000000 \<le> s"
    and "s + T * 31556952000 \<le> 8640000000000000"
    and "s + TG * TP * 262974600 \<le> 8640000000000000"
  shows "(list_all (\<lambda>x. startDate x \<noteq> None \<and> endDate x \<noteq> None)
           (calculateAntarDashas tza L (Some s))
       \<and> (\<Sum>x\<leftarrow>calculateAntarDashas tza L (Some s).
             (of_int (the (endDate x)) - of_int (the (startDate x))) / msPerYear) = of_int T
       \<and> (\<Sum>n\<leftarrow>[0..<9]. the (subDuration (Some (of_int T))
             (years_of (elem_at NAKSHATRA_LORDS (irem (indexOf NAKSHATRA_LORDS L + int n) 9)))))
           = of_int T)
    \<and> (list_all (\<lambda>x. startDate x \<noteq> None \<and> endDate x \<noteq> None)
           (calculatePratyantarDashas tza G P (Some s))
       \<and> (\<Sum>x\<leftarrow>calculatePratyantarDashas tza G P (Some s).
             (of_int (the (endDate x)) - of_int (the (startDate x))) / msPerYear)
           = of_int TG * of_int TP / 120
       \<and> (\<Sum>n\<leftarrow>[0..<9]. the (subDuration (Some (of_int TG * of_int TP / 120))
             (years_of (elem_at NAKSHATRA_LORDS (irem (indexOf NAKSHATRA_LORDS P + int n) 9)))))
           = of_int TG * of_int TP / 120)"
  using antar_spans [OF assms(1,4,5), of tza] pratyantar_spans [OF assms(2,3,4,6), of tza]
  by blast

theorem sub_periods_sum_to_parent_witness:
  "DASHA_YEARS ''Ketu'' = Some 7 \<and> DASHA_YEARS ''Rahu'' = Some 18
   \<and> (\<Sum>x\<leftarrow>calculateAntarDashas 0 ''Ketu'' (Some 0).
         (of_int (the (endDate x)) - of_int (the (startDate x))) / msPerYear) = 7
   \<and> (\<Sum>x\<leftarrow>calculatePratyantarDashas 0 ''Ketu'' ''Rahu'' (Some 0).
         (of_int (the (endDate x)) - of_int (the (startDate x))) / msPerYear) = 7 * 18 / 120"
proof -
  have k: "DASHA_YEARS ''Ketu'' = Some 7" and r: "DASHA_YEARS ''Rahu'' = Some 18"
    by (simp_all add: DASHA_YEARS_def)
  have b: "- 8640000000000000 \<le> (0::int)" "(0::int) + 7 * 31556952000 \<le> 8640000000000000"
    "(0::int) + 7 * 18 * 262974600 \<le> 8640000000000000"
    by simp_all
  show ?thesis
    using sub_periods_sum_to_parent [OF k k r b, of 0] k r by simp
qed

subsection \<open>Calendar differences at given instants\<close>

lemmas cal_defs = getFullYear_def getMonth_def getDate_def LocalTime_def MonthFromTime_def
     DateFromTime_def DayWithinYear_def InLeapYear_def YearFromTime_def DaysInYear_def
     DayFromYear_def Day_def msPerDay_def

lemma getDurationYMD_fields:
  assumes "getFullYear tza s = ys" "getMonth tza s = ms" "getDate tza s = ds"
    and "getFullYear tza e = ye" "getMonth tza e = me" "getDate tza e = de"
  shows "getDurationYMD tza (Some s) (Some e) =
     (Some (ye - ys - (if me - ms - (if de < ds then 1 else 0) < 0 then 1 else 0)),
      Some (me - ms - (if de < ds then 1 else 0)
            + (if me - ms - (if de < ds then 1 else 0) < 0 then 12 else 0)),
      (if de < ds then map_option (\<lambda>p. de - ds + getDate tza p) (newDate tza ye me 0)
       else Some (de - ds)))"
  by (simp add: getDurationYMD_def assms Let_def)

lemma antarLoop_ymd:
  "j < length ns \<Longrightarrow>
   (durationYear (antarLoop tza L T idx cur ns ! j),
    durationMonth (antarLoop tza L T idx cur ns ! j),
    durationDay (antarLoop tza L T idx cur ns ! j)) =
   getDurationYMD tza (startDate (antarLoop tza L T idx cur ns ! j))
     (endDate (antarLoop tza L T idx cur ns ! j))"
proof (induction ns arbitrary: cur j)
  case Nil
  then show ?case by simp
next
  case (Cons n ns)
  show ?case
  proof (cases j)
    case 0
    then show ?thesis by (simp add: Let_def split_beta)
  next
    case (Suc k)
    then have "k < length ns" using Cons.prems by simp
    from Cons.IH [OF this] show ?thesis using Suc by (simp add: Let_def split_beta)
  qed
qed

lemma antar_ymd:
  assumes "j < 9"
  shows "(durationYear (calculateAntarDashas tza L st ! j),
    durationMonth (calculateAntarDashas tza L st ! j),
    durationDay (calculateAntarDashas tza L st ! j)) =
   getDurationYMD tza (startDate (calculateAntarDashas tza L st ! j))
     (endDate (calculateAntarDashas tza L st ! j))"
  using assms antarLoop_ymd [of j "[0..<9]"] by (simp add: calculateAntarDashas_def Let_def)

lemma ketu_tab: "DASHA_YEARS ''Ketu'' = Some 7" "indexOf NAKSHATRA_LORDS ''Ketu'' = 0"
  by (simp_all add: DASHA_YEARS_def indexOf_def NAKSHATRA_LORDS_def)

lemma pairs_by_index:
  assumes "length xs = 9"
  shows "map f xs = [f (xs ! 0), f (xs ! 1), f (xs ! 2), f (xs ! 3), f (xs ! 4), f (xs ! 5),
     f (xs ! 6), f (xs ! 7), f (xs ! 8)]"
proof -
  have "map (\<lambda>j. f (xs ! j)) [0..<length xs] = map f (map ((!) xs) [0..<length xs])"
    by (simp only: map_map comp_def)
  also have "\<dots> = map f xs" by (simp only: map_nth)
  finally show ?thesis by (simp add: assms upt_9)
qed

lemma ketu_dates:
  "map (\<lambda>x. (startDate x, endDate x)) (calculateAntarDashas tza ''Ketu'' (Some 0)) =
    [(Some 0, Some 12885755400), (Some 12885755400, Some 49702199400),
     (Some 49702199400, Some 60747132600), (Some 60747132600, Some 79155354600),
     (Some 79155354600, Some 92041110000), (Some 92041110000, Some 125175909600),
     (Some 125175909600, Some 154629064800), (Some 154629064800, Some 189604686600),
     (Some 189604686600, Some 220898664000)]"
proof -
  have b: "- 8640000000000000 \<le> (0::int)" "(0::int) + 7 * 31556952000 \<le> 8640000000000000"
    by simp_all
  note d = antar_dates_explicit [OF ketu_tab(1) b, of _ tza]
  show ?thesis
    by (simp add: pairs_by_index [OF length_calculateAntarDashas] d ketu_tab(2) upt_9)
qed

lemma k0: "getFullYear 0 0 = 1970" "getMonth 0 0 = 0" "getDate 0 0 = 1"
  by (simp_all add: cal_defs)

lemma k1: "getFullYear 0 12885755400 = 1970" "getMonth 0 12885755400 = 4" "getDate 0 12885755400 = 30"
  by (simp_all add: cal_defs)

lemma k2: "getFullYear 0 49702199400 = 1971" "getMonth 0 49702199400 = 6" "getDate 0 49702199400 = 30"
  by (simp_all add: cal_defs)

lemma k3: "getFullYear 0 60747132600 = 1971" "getMonth 0 60747132600 = 11" "getDate 0 60747132600 = 5"
  by (simp_all add: cal_defs)

lemma k4: "getFullYear 0 79155354600 = 1972" "getMonth 0 79155354600 = 6" "getDate 0 79155354600 = 5"
  by (simp_all add: cal_defs)

lemma k5: "getFullYear 0 92041110000 = 1972" "getMonth 0 92041110000 = 11" "getDate 0 92041110000 = 1"
  by (simp_all add: cal_defs)

lemma k6: "getFullYear 0 125175909600 = 1973" "getMonth 0 125175909600 = 11" "getDate 0 125175909600 = 19"
  by (simp_all add: cal_defs)

lemma k7: "getFullYear 0 154629064800 = 1974" "getMonth 0 154629064800 = 10" "getDate 0 154629064800 = 25"
  by (simp_all add: cal_defs)

lemma k8: "getFullYear 0 189604686600 = 1976" "getMonth 0 189604686600 = 0" "getDate 0 189604686600 = 4"
  by (simp_all add: cal_defs)

lemma k9: "getFullYear 0 220898664000 = 1976" "getMonth 0 220898664000 = 11" "getDate 0 220898664000 = 31"
  by (simp_all add: cal_defs)


lemma antar_durationYear_map:
  "map durationYear (calculateAntarDashas tza L st) =
     map (\<lambda>p. fst (getDurationYMD tza (fst p) (snd p)))
       (map (\<lambda>x. (startDate x, endDate x)) (calculateAntarDashas tza L st))"
proof (rule nth_equalityI)
  show "length (map durationYear (calculateAntarDashas tza L st)) =
      length (map (\<lambda>p. fst (getDurationYMD tza (fst p) (snd p)))
       (map (\<lambda>x. (startDate x, endDate x)) (calculateAntarDashas tza L st)))"
    by simp
next
  fix i
  assume "i < length (map durationYear (calculateAntarDashas tza L st))"
  then have i: "i < 9" by (simp add: length_calculateAntarDashas)
  have "durationYear (calculateAntarDashas tza L st ! i) =
      fst (getDurationYMD tza (startDate (calculateAntarDashas tza L st ! i))
             (endDate (calculateAntarDashas tza L st ! i)))"
    using antar_ymd [OF i, of tza L st, symmetric] by simp
  then show "map durationYear (calculateAntarDashas tza L st) ! i =
      map (\<lambda>p. fst (getDurationYMD tza (fst p) (snd p)))
       (map (\<lambda>x. (startDate x, endDate x)) (calculateAntarDashas tza L st)) ! i"
    using i by (simp add: length_calculateAntarDashas)
qed

lemma ketu_years:
  "map durationYear (calculateAntarDashas 0 ''Ketu'' (Some 0)) =
     [Some 0, Some 1, Some 0, Some 0, Some 0, Some 1, Some 0, Some 1, Some 0]"
  by (simp add: antar_durationYear_map ketu_dates
      getDurationYMD_fields [OF k0 k1] getDurationYMD_fields [OF k1 k2]
      getDurationYMD_fields [OF k2 k3] getDurationYMD_fields [OF k3 k4]
      getDurationYMD_fields [OF k4 k5] getDurationYMD_fields [OF k5 k6]
      getDurationYMD_fields [OF k6 k7] getDurationYMD_fields [OF k7 k8]
      getDurationYMD_fields [OF k8 k9])

text \<open>
  Claim C1 speaks of the sum of the nine returned durations in years. The value returned
  as \<open>durationYear\<close> is the year component of the calendar difference of
  \<open>getDurationYMD\<close>, not the fractional duration: for the lord Ketu, whose period is
  7 years, and the epoch as start, in UTC, the nine components are 0 or 1 and sum to 3.
\<close>

theorem antar_durationYear_sum_counterexample:
  "map durationYear (calculateAntarDashas 0 ''Ketu'' (Some 0)) =
     [Some 0, Some 1, Some 0, Some 0, Some 0, Some 1, Some 0, Some 1, Some 0]
   \<and> (\<Sum>v\<leftarrow>map durationYear (calculateAntarDashas 0 ''Ketu'' (Some 0)). real_of_int (the v)) = 3
   \<and> DASHA_YEARS ''Ketu'' = Some 7
   \<and> \<bar>(3::real) - 7\<bar> > 7 / 10 ^ 9"
  by (simp add: ketu_years DASHA_YEARS_def)

lemma d_jan31: "getFullYear 0 980899200000 = 2001" "getMonth 0 980899200000 = 0"
    "getDate 0 980899200000 = 31"
  by (simp_all add: cal_defs)

lemma d_mar1: "getFullYear 0 983404800000 = 2001" "getMonth 0 983404800000 = 2"
    "getDate 0 983404800000 = 1"
  by (simp_all add: cal_defs)

lemma prev_2001_2: "newDate 0 2001 2 0 = Some 983318400000" "getDate 0 983318400000 = 28"
  by (simp_all add: newDate_def MakeDate_def MakeDay_def UTC_def TimeClip_def trunc_def cal_defs)

lemma d_aug31: "getFullYear 0 999222285600 = 2001" "getMonth 0 999222285600 = 7"
    "getDate 0 999222285600 = 31"
  by (simp_all add: cal_defs)

lemma d_mar1_2002: "getFullYear 0 1015000761600 = 2002" "getMonth 0 1015000761600 = 2"
    "getDate 0 1015000761600 = 1"
  by (simp_all add: cal_defs)

lemma prev_2002_2: "newDate 0 2002 2 0 = Some 1014854400000" "getDate 0 1014854400000 = 28"
  by (simp_all add: newDate_def MakeDate_def MakeDay_def UTC_def TimeClip_def trunc_def cal_defs)

lemma antarLoop_planet:
  "j < length ns \<Longrightarrow>
   planet (antarLoop tza L T idx cur ns ! j) =
     Some (L @ '' - '' @ str (elem_at NAKSHATRA_LORDS (irem (idx + int (ns ! j)) 9)))"
proof (induction ns arbitrary: cur j)
  case Nil
  then show ?case by simp
next
  case (Cons n ns)
  show ?case
  proof (cases j)
    case 0
    then show ?thesis by (simp add: Let_def split_beta)
  next
    case (Suc k)
    then have "k < length ns" using Cons.prems by simp
    from Cons.IH [OF this] show ?thesis using Suc by (simp add: Let_def split_beta)
  qed
qed

lemma surya_tab: "DASHA_YEARS ''Surya'' = Some 6" "indexOf NAKSHATRA_LORDS ''Surya'' = 2"
  by (simp_all add: DASHA_YEARS_def indexOf_def NAKSHATRA_LORDS_def)

lemma surya_second:
  "startDate (calculateAntarDashas 0 ''Surya'' (Some 989755200000) ! 1) = Some 999222285600"
  "endDate (calculateAntarDashas 0 ''Surya'' (Some 989755200000) ! 1) = Some 1015000761600"
  "planet (calculateAntarDashas 0 ''Surya'' (Some 989755200000) ! 1) = Some ''Surya - Chandra''"
proof -
  have b: "- 8640000000000000 \<le> (989755200000::int)"
    "(989755200000::int) + 6 * 31556952000 \<le> 8640000000000000" "(1::nat) < 9"
    by simp_all
  show "startDate (calculateAntarDashas 0 ''Surya'' (Some 989755200000) ! 1) = Some 999222285600"
    using antar_dates_explicit(1) [OF surya_tab(1) b, of 0] by (simp add: surya_tab(2) upt_9)
  show "endDate (calculateAntarDashas 0 ''Surya'' (Some 989755200000) ! 1) = Some 1015000761600"
    using antar_dates_explicit(2) [OF surya_tab(1) b, of 0] by (simp add: surya_tab(2) upt_9)
  have c: "calculateAntarDashas 0 ''Surya'' (Some 989755200000) =
      antarLoop 0 ''Surya'' (Some 6) 2 (Some 989755200000) [0..<9]"
    by (simp only: calculateAntarDashas_def surya_tab Let_def)
  have "planet (antarLoop 0 ''Surya'' (Some 6) 2 (Some 989755200000) [0..<9] ! 1) =
      Some (''Surya'' @ '' - '' @ str (elem_at NAKSHATRA_LORDS (irem (2 + int ([0..<9] ! 1)) 9)))"
    by (rule antarLoop_planet) simp
  also have "\<dots> = Some ''Surya - Chandra''"
    by (simp add: irem_def elem_at_def NAKSHATRA_LORDS_def str_def)
  finally show "planet (calculateAntarDashas 0 ''Surya'' (Some 989755200000) ! 1)
      = Some ''Surya - Chandra''"
    by (simp only: c)
qed

text \<open>
  Claim C10. For some pairs of instants with the end after the start the calendar
  difference has a negative day component, and a returned period carries it. From
  31 January 2001 to 1 March 2001 (UTC) the borrow adds the 28 days of February to
  \<open>1 - 31\<close>, which leaves \<open>-2\<close>. The second period that \<open>calculateAntarDashas\<close>
  returns for Surya from 13 May 2001, 12:00 UTC, runs from 31 August 2001 to
  1 March 2002 and has \<open>durationDay = -2\<close>.
\<close>

theorem negative_duration_day:
  "(980899200000::int) < 983404800000
   \<and> getDate 0 980899200000 = 31 \<and> getMonth 0 983404800000 = 2 \<and> getDate 0 983404800000 = 1
   \<and> getDurationYMD 0 (Some 980899200000) (Some 983404800000) = (Some 0, Some 1, Some (- 2))
   \<and> planet (calculateAntarDashas 0 ''Surya'' (Some 989755200000) ! 1) = Some ''Surya - Chandra''
   \<and> startDate (calculateAntarDashas 0 ''Surya'' (Some 989755200000) ! 1) = Some 999222285600
   \<and> endDate (calculateAntarDashas 0 ''Surya'' (Some 989755200000) ! 1) = Some 1015000761600
   \<and> durationDay (calculateAntarDashas 0 ''Surya'' (Some 989755200000) ! 1) = Some (- 2)"
proof -
  have a: "getDurationYMD 0 (Some 980899200000) (Some 983404800000) = (Some 0, Some 1, Some (- 2))"
    by (simp add: getDurationYMD_fields [OF d_jan31 d_mar1] prev_2001_2)
  have "(durationYear (calculateAntarDashas 0 ''Surya'' (Some 989755200000) ! 1),
      durationMonth (calculateAntarDashas 0 ''Surya'' (Some 989755200000) ! 1),
      durationDay (calculateAntarDashas 0 ''Surya'' (Some 989755200000) ! 1)) =
      getDurationYMD 0 (Some 999222285600) (Some 1015000761600)"
    by (simp only: surya_second [symmetric]) (rule antar_ymd, simp)
  also have "\<dots> = (Some 0, Some 6, Some (- 2))"
    by (simp add: getDurationYMD_fields [OF d_aug31 d_mar1_2002] prev_2002_2)
  finally have b: "durationDay (calculateAntarDashas 0 ''Surya'' (Some 989755200000) ! 1)
      = Some (- 2)"
    by simp
  show ?thesis using a b surya_second d_jan31 d_mar1 by simp
qed

subsection \<open>The first period of the first level\<close>

lemma maha_first_item:
  "planet (calculateMahadashas tza moonLon birth ! 0) =
     elem_at NAKSHATRA_LORDS (irem \<lfloor>moonLon / 13.3333333333\<rfloor> 9)"
  "endDate (calculateMahadashas tza moonLon birth ! 0) =
     addTime birth
       (map_option
          (\<lambda>ty. of_int ty * (1 - (moonLon / 13.3333333333 - of_int \<lfloor>moonLon / 13.3333333333\<rfloor>)))
          (years_of (elem_at NAKSHATRA_LORDS (irem \<lfloor>moonLon / 13.3333333333\<rfloor> 9))))"
  "(durationYear (calculateMahadashas tza moonLon birth ! 0),
    durationMonth (calculateMahadashas tza moonLon birth ! 0),
    durationDay (calculateMahadashas tza moonLon birth ! 0)) =
     getDurationYMD tza birth (endDate (calculateMahadashas tza moonLon birth ! 0))"
  by (simp_all add: calculateMahadashas_def Let_def split_beta)

lemma mahaLoop_item:
  "j < length ns \<Longrightarrow>
   planet (mahaLoop li cur ns ! j) = elem_at NAKSHATRA_LORDS (irem (li + int (ns ! j)) 9)
   \<and> durationYear (mahaLoop li cur ns ! j) = years_of (planet (mahaLoop li cur ns ! j))
   \<and> durationMonth (mahaLoop li cur ns ! j) = Some 0
   \<and> durationDay (mahaLoop li cur ns ! j) = Some 0
   \<and> endDate (mahaLoop li cur ns ! j) =
       addTime (startDate (mahaLoop li cur ns ! j))
         (map_option of_int (years_of (planet (mahaLoop li cur ns ! j))))"
proof (induction ns arbitrary: cur j)
  case Nil
  then show ?case by simp
next
  case (Cons n ns)
  show ?case
  proof (cases j)
    case 0
    then show ?thesis by (simp add: Let_def)
  next
    case (Suc k)
    then have "k < length ns" using Cons.prems by simp
    from Cons.IH [OF this] show ?thesis using Suc by (simp add: Let_def)
  qed
qed

lemma maha_later_periods:
  assumes "1 \<le> i" "i \<le> 8"
  shows "planet (calculateMahadashas tza moonLon birth ! i) =
       elem_at NAKSHATRA_LORDS (irem (irem \<lfloor>moonLon / 13.3333333333\<rfloor> 9 + int i) 9)
   \<and> durationYear (calculateMahadashas tza moonLon birth ! i) =
       years_of (planet (calculateMahadashas tza moonLon birth ! i))
   \<and> durationMonth (calculateMahadashas tza moonLon birth ! i) = Some 0
   \<and> durationDay (calculateMahadashas tza moonLon birth ! i) = Some 0
   \<and> endDate (calculateMahadashas tza moonLon birth ! i) =
       addTime (startDate (calculateMahadashas tza moonLon birth ! i))
         (map_option of_int (years_of (planet (calculateMahadashas tza moonLon birth ! i))))"
proof -
  obtain k where k: "i = Suc k" using assms by (cases i) simp_all
  then have kl: "k < length [1..<9::nat]" using assms by simp
  have n: "[1..<9] ! k = i" using kl k by simp
  show ?thesis
    using mahaLoop_item [OF kl] n k
    by (simp add: calculateMahadashas_def Let_def split_beta)
qed

lemma d_birth: "getFullYear 0 1169100 = 1970" "getMonth 0 1169100 = 0" "getDate 0 1169100 = 1"
  by (simp_all add: cal_defs)

lemma d_may21: "getFullYear 0 201571199997 = 1976" "getMonth 0 201571199997 = 4"
    "getDate 0 201571199997 = 21"
  by (simp_all add: cal_defs)

lemma d_may22: "getFullYear 0 201571200000 = 1976" "getMonth 0 201571200000 = 4"
    "getDate 0 201571200000 = 22"
  by (simp_all add: cal_defs)

lemma kuja_tab: "elem_at NAKSHATRA_LORDS (irem \<lfloor>54.5 / 13.3333333333 :: real\<rfloor> 9) = Some ''Kuja''"
    "years_of (Some ''Kuja'') = Some 7"
  by (simp_all add: elem_at_def NAKSHATRA_LORDS_def irem_def years_of_def DASHA_YEARS_def)

lemma kuja_end:
  "endDate (calculateMahadashas 0 54.5 (Some 1169100) ! 0) = Some 201571199997"
  by (simp only: maha_first_item(2) kuja_tab)
     (simp add: addTime_def msPerYear_def TimeClip_def trunc_def)

text \<open>
  Claim C9 says that for a Moon longitude of 54.5 degrees the first period belongs to
  Kuja, has the year component 6, and has the month and day components of the calendar
  difference between the birth instant and the instant 6.3875 mean years later.
  \<open>calculateMahadashas\<close> divides by the literal \<open>13.3333333333\<close> instead of \<open>360/27\<close>,
  so its balance is about 2.26 milliseconds short of 6.3875 years. For the birth instant
  1970-01-01T00:19:29.100Z the period ends at 23:59:59.997 on 21 May 1976 and the
  components are (6, 4, 20); the instant 6.3875 mean years after birth is midnight of
  22 May 1976, with components (6, 4, 21).
\<close>

theorem mahadasha_balance_example:
  "planet (calculateMahadashas 0 54.5 (Some 1169100) ! 0) = Some ''Kuja''
   \<and> startDate (calculateMahadashas 0 54.5 (Some 1169100) ! 0) = Some 1169100
   \<and> endDate (calculateMahadashas 0 54.5 (Some 1169100) ! 0) = Some 201571199997
   \<and> (durationYear (calculateMahadashas 0 54.5 (Some 1169100) ! 0),
       durationMonth (calculateMahadashas 0 54.5 (Some 1169100) ! 0),
       durationDay (calculateMahadashas 0 54.5 (Some 1169100) ! 0)) = (Some 6, Some 4, Some 20)
   \<and> 7 * 0.9125 = (6.3875::real)
   \<and> addTime (Some 1169100) (Some 6.3875) = Some 201571200000
   \<and> getDurationYMD 0 (Some 1169100) (Some 201571200000) = (Some 6, Some 4, Some 21)"
proof -
  have p: "planet (calculateMahadashas 0 54.5 (Some 1169100) ! 0) = Some ''Kuja''"
    by (simp only: maha_first_item(1) kuja_tab)
  have s: "startDate (calculateMahadashas 0 54.5 (Some 1169100) ! 0) = Some 1169100"
    using maha_contiguous [of 0 "54.5" "Some 1169100"] by blast
  have "(durationYear (calculateMahadashas 0 54.5 (Some 1169100) ! 0),
       durationMonth (calculateMahadashas 0 54.5 (Some 1169100) ! 0),
       durationDay (calculateMahadashas 0 54.5 (Some 1169100) ! 0)) =
      getDurationYMD 0 (Some 1169100) (Some 201571199997)"
    by (simp only: maha_first_item(3) kuja_end)
  also have "\<dots> = (Some 6, Some 4, Some 20)"
    by (simp add: getDurationYMD_fields [OF d_birth d_may21])
  finally have y: "(durationYear (calculateMahadashas 0 54.5 (Some 1169100) ! 0),
       durationMonth (calculateMahadashas 0 54.5 (Some 1169100) ! 0),
       durationDay (calculateMahadashas 0 54.5 (Some 1169100) ! 0)) = (Some 6, Some 4, Some 20)" .
  have a: "addTime (Some 1169100) (Some 6.3875) = Some 201571200000"
    by (simp add: addTime_def msPerYear_def TimeClip_def trunc_def)
  have g: "getDurationYMD 0 (Some 1169100) (Some 201571200000) = (Some 6, Some 4, Some 21)"
    by (simp add: getDurationYMD_fields [OF d_birth d_may22])
  show ?thesis using p s kuja_end y a g by simp
qed

text \<open>
  The same holds one millisecond later: for the birth instant 1970-01-01T00:19:29.101Z
  the period ends at 23:59:59.998 on 21 May 1976 with the components (6, 4, 20), and
  the instant 6.3875 mean years after birth is 00:00:00.001 on 22 May 1976, with the
  components (6, 4, 21). Here the two instants are three milliseconds apart, on either
  side of midnight.
\<close>

lemma d_birth_101: "getFullYear 0 1169101 = 1970" "getMonth 0 1169101 = 0"
    "getDate 0 1169101 = 1"
  by (simp_all add: cal_defs)

lemma d_may21_998: "getFullYear 0 201571199998 = 1976" "getMonth 0 201571199998 = 4"
    "getDate 0 201571199998 = 21"
  by (simp_all add: cal_defs)

lemma d_may22_001: "getFullYear 0 201571200001 = 1976" "getMonth 0 201571200001 = 4"
    "getDate 0 201571200001 = 22"
  by (simp_all add: cal_defs)

lemma kuja_end_101:
  "endDate (calculateMahadashas 0 54.5 (Some 1169101) ! 0) = Some 201571199998"
  by (simp only: maha_first_item(2) kuja_tab)
     (simp add: addTime_def msPerYear_def TimeClip_def trunc_def)

lemma mahadasha_balance_later_birth:
  "endDate (calculateMahadashas 0 54.5 (Some 1169101) ! 0) = Some 201571199998
   \<and> (durationYear (calculateMahadashas 0 54.5 (Some 1169101) ! 0),
       durationMonth (calculateMahadashas 0 54.5 (Some 1169101) ! 0),
       durationDay (calculateMahadashas 0 54.5 (Some 1169101) ! 0)) = (Some 6, Some 4, Some 20)
   \<and> addTime (Some 1169101) (Some 6.3875) = Some 201571200001
   \<and> getDurationYMD 0 (Some 1169101) (Some 201571200001) = (Some 6, Some 4, Some 21)"
proof -
  have "(durationYear (calculateMahadashas 0 54.5 (Some 1169101) ! 0),
       durationMonth (calculateMahadashas 0 54.5 (Some 1169101) ! 0),
       durationDay (calculateMahadashas 0 54.5 (Some 1169101) ! 0)) =
      getDurationYMD 0 (Some 1169101) (Some 201571199998)"
    by (simp only: maha_first_item(3) kuja_end_101)
  also have "\<dots> = (Some 6, Some 4, Some 20)"
    by (simp add: getDurationYMD_fields [OF d_birth_101 d_may21_998])
  finally have y: "(durationYear (calculateMahadashas 0 54.5 (Some 1169101) ! 0),
       durationMonth (calculateMahadashas 0 54.5 (Some 1169101) ! 0),
       durationDay (calculateMahadashas 0 54.5 (Some 1169101) ! 0)) = (Some 6, Some 4, Some 20)" .
  have a: "addTime (Some 1169101) (Some 6.3875) = Some 201571200001"
    by (simp add: addTime_def msPerYear_def TimeClip_def trunc_def)
  have g: "getDurationYMD 0 (Some 1169101) (Some 201571200001) = (Some 6, Some 4, Some 21)"
    by (simp add: getDurationYMD_fields [OF d_birth_101 d_may22_001])
  show ?thesis using kuja_end_101 y a g by simp
qed

text \<open>
  Claim C2 says that the first period belongs to the lord at index
  \<open>floor(moonLongitude / (360/27)) mod 9\<close> and lasts its years times the fraction of the
  nakshatra that remains. With the literal \<open>13.3333333333\<close> the code finds, for the Moon
  at 359.99999999995 degrees, the nakshatra index 27 and so the lord Ketu with a first
  period of nearly 7 years, where \<open>360/27\<close> gives index 26, the lord Budha and a first
  period shorter than 3 milliseconds; at 13.33333333331 degrees the code starts with
  Shukra where \<open>360/27\<close> gives Ketu.
\<close>

theorem mahadasha_first_lord_example:
  "\<lfloor>359.99999999995 / (13.3333333333::real)\<rfloor> = 27
   \<and> \<lfloor>359.99999999995 / (360 / 27 :: real)\<rfloor> = 26
   \<and> planet (calculateMahadashas 0 359.99999999995 (Some 0) ! 0) = Some ''Ketu''
   \<and> elem_at NAKSHATRA_LORDS (irem \<lfloor>359.99999999995 / (360 / 27 :: real)\<rfloor> 9) = Some ''Budha''
   \<and> endDate (calculateMahadashas 0 359.99999999995 (Some 0) ! 0) = Some 220898663985
   \<and> 17 * (1 - (359.99999999995 / (360 / 27) - 26)) * msPerYear < 3
   \<and> planet (calculateMahadashas 0 13.33333333331 (Some 0) ! 0) = Some ''Shukra''
   \<and> elem_at NAKSHATRA_LORDS (irem \<lfloor>13.33333333331 / (360 / 27 :: real)\<rfloor> 9) = Some ''Ketu''"
proof -
  have t: "elem_at NAKSHATRA_LORDS (irem \<lfloor>359.99999999995 / 13.3333333333 :: real\<rfloor> 9)
      = Some ''Ketu''" "years_of (Some ''Ketu'') = Some 7"
    by (simp_all add: elem_at_def NAKSHATRA_LORDS_def irem_def years_of_def DASHA_YEARS_def)
  have e: "endDate (calculateMahadashas 0 359.99999999995 (Some 0) ! 0) = Some 220898663985"
    by (simp only: maha_first_item(2) t)
       (simp add: addTime_def msPerYear_def TimeClip_def trunc_def)
  have p: "planet (calculateMahadashas 0 359.99999999995 (Some 0) ! 0) = Some ''Ketu''"
    by (simp only: maha_first_item(1) t)
  have q: "planet (calculateMahadashas 0 13.33333333331 (Some 0) ! 0) = Some ''Shukra''"
    by (simp only: maha_first_item(1))
       (simp add: elem_at_def NAKSHATRA_LORDS_def irem_def)
  show ?thesis using e p q
    by (simp add: elem_at_def NAKSHATRA_LORDS_def irem_def msPerYear_def)
qed

section \<open>The calendar\<close>

text \<open>
  \<open>YearFromTime\<close> meets its specification: it is the year whose first day is at or
  before the day of the instant and whose successor starts after it. Consecutive years
  start \<open>DaysInYear\<close> days apart.
\<close>

lemma int_div_bounds:
  fixes x k :: int
  assumes "0 < k"
  shows "k * (x div k) \<le> x" and "x < k * (x div k) + k"
proof -
  have e: "x = k * (x div k) + x mod k" by simp
  have "0 \<le> x mod k" "x mod k < k" using assms by simp_all
  then show "k * (x div k) \<le> x" and "x < k * (x div k) + k" using e by linarith+
qed

lemma DayFromYear_estimate:
  assumes "146097 * q \<le> 400 * dy" and "400 * dy < 146097 * q + 146097"
  shows "DayFromYear (1970 + q - 1) \<le> dy" and "dy < DayFromYear (1970 + q + 2)"
proof -
  define A B C where "A = (q - 1 + 1) div 4" and "B = (q - 1 + 69) div 100"
    and "C = (q - 1 + 369) div 400"
  have a: "4 * A \<le> q - 1 + 1"
    and b: "q - 1 + 69 < 100 * B + 100"
    and c: "400 * C \<le> q - 1 + 369"
    unfolding A_def B_def C_def by (rule int_div_bounds, simp)+
  have e: "DayFromYear (1970 + q - 1) = 365 * q - 365 + A - B + C"
    by (simp add: DayFromYear_def A_def B_def C_def algebra_simps)
  have "365 * q - 365 + A - B + C \<le> dy" using a b c assms by linarith
  then show "DayFromYear (1970 + q - 1) \<le> dy" by (simp only: e)
  define A' B' C' where "A' = (q + 2 + 1) div 4" and "B' = (q + 2 + 69) div 100"
    and "C' = (q + 2 + 369) div 400"
  have a': "q + 2 + 1 < 4 * A' + 4"
    and b': "100 * B' \<le> q + 2 + 69"
    and c': "q + 2 + 369 < 400 * C' + 400"
    unfolding A'_def B'_def C'_def by (rule int_div_bounds, simp)+
  have e': "DayFromYear (1970 + q + 2) = 365 * q + 730 + A' - B' + C'"
    by (simp add: DayFromYear_def A'_def B'_def C'_def algebra_simps)
  have "dy < 365 * q + 730 + A' - B' + C'" using a' b' c' assms by linarith
  then show "dy < DayFromYear (1970 + q + 2)" by (simp only: e')
qed

lemma YearFromTime_bracket:
  "DayFromYear (YearFromTime t) \<le> Day t \<and> Day t < DayFromYear (YearFromTime t + 1)"
proof -
  let ?dy = "Day t"
  let ?q = "(400 * ?dy) div 146097"
  let ?y0 = "1970 + ?q"
  have q: "146097 * ?q \<le> 400 * ?dy" "400 * ?dy < 146097 * ?q + 146097"
    by (rule int_div_bounds, simp)+
  note est = DayFromYear_estimate [OF q]
  have y: "YearFromTime t =
      (if ?dy < DayFromYear ?y0 then ?y0 - 1
       else if DayFromYear (?y0 + 1) \<le> ?dy then ?y0 + 1 else ?y0)"
    by (simp add: YearFromTime_def Let_def)
  show ?thesis
  proof (cases "?dy < DayFromYear ?y0")
    case True
    then show ?thesis using est(1) by (simp add: y)
  next
    case False
    show ?thesis
    proof (cases "DayFromYear (?y0 + 1) \<le> ?dy")
      case True
      have "?y0 + 1 + 1 = ?y0 + 2" by simp
      then show ?thesis using True False est(2) by (simp add: y)
    next
      case n: False
      then show ?thesis using False by (simp add: y)
    qed
  qed
qed

lemma div_succ:
  fixes x k :: int
  assumes "0 < k"
  shows "(x + 1) div k = x div k + (if (x + 1) mod k = 0 then 1 else 0)"
proof -
  have e: "x = k * (x div k) + x mod k" by simp
  have r: "0 \<le> x mod k" "x mod k < k" using assms by simp_all
  show ?thesis
  proof (cases "x mod k = k - 1")
    case True
    then have "x + 1 = k * (x div k) + k" using e by linarith
    then have "x + 1 = k * (x div k + 1) + 0" by (simp add: algebra_simps)
    then have "(x + 1) div k = x div k + 1" and "(x + 1) mod k = 0"
      using assms by (auto intro: int_div_pos_eq int_mod_pos_eq)
    then show ?thesis by simp
  next
    case False
    then have s: "0 \<le> x mod k + 1" "x mod k + 1 < k" using r by simp_all
    have eq: "x + 1 = k * (x div k) + (x mod k + 1)" using e by simp
    have "(x + 1) div k = x div k" by (rule int_div_pos_eq [OF eq s])
    moreover have "(x + 1) mod k = x mod k + 1" by (rule int_mod_pos_eq [OF eq s])
    ultimately show ?thesis using r by simp
  qed
qed

lemma mod_shift:
  fixes yr :: int
  shows "(yr - 1968) mod 4 = yr mod 4" and "(yr - 1900) mod 100 = yr mod 100"
    and "(yr - 1600) mod 400 = yr mod 400"
proof -
  have "(yr - 1968) mod 4 = (yr + 4 * (- 492)) mod 4" by simp
  also have "\<dots> = yr mod 4" by (rule mod_mult_self2)
  finally show "(yr - 1968) mod 4 = yr mod 4" .
  have "(yr - 1900) mod 100 = (yr + 100 * (- 19)) mod 100" by simp
  also have "\<dots> = yr mod 100" by (rule mod_mult_self2)
  finally show "(yr - 1900) mod 100 = yr mod 100" .
  have "(yr - 1600) mod 400 = (yr + 400 * (- 4)) mod 400" by simp
  also have "\<dots> = yr mod 400" by (rule mod_mult_self2)
  finally show "(yr - 1600) mod 400 = yr mod 400" .
qed

lemma mod_4_100_400:
  fixes yr :: int
  shows "yr mod 100 = 0 \<Longrightarrow> yr mod 4 = 0" and "yr mod 400 = 0 \<Longrightarrow> yr mod 100 = 0"
proof -
  have "(4::int) dvd 100" and "(100::int) dvd 400" by simp_all
  then show "yr mod 100 = 0 \<Longrightarrow> yr mod 4 = 0" and "yr mod 400 = 0 \<Longrightarrow> yr mod 100 = 0"
    by (auto simp only: mod_eq_0_iff_dvd intro: dvd_trans)
qed

lemma DayFromYear_step: "DayFromYear (yr + 1) = DayFromYear yr + DaysInYear yr"
proof -
  define A B C where "A = (yr - 1969) div 4" and "B = (yr - 1901) div 100"
    and "C = (yr - 1601) div 400"
  have s4: "yr - 1969 + 1 = yr - 1968" and s100: "yr - 1901 + 1 = yr - 1900"
    and s400: "yr - 1601 + 1 = yr - 1600"
    by simp_all
  have a: "(yr - 1968) div 4 = A + (if yr mod 4 = 0 then 1 else 0)"
    using div_succ [of 4 "yr - 1969"] by (simp only: s4 mod_shift A_def)
  have b: "(yr - 1900) div 100 = B + (if yr mod 100 = 0 then 1 else 0)"
    using div_succ [of 100 "yr - 1901"] by (simp only: s100 mod_shift B_def)
  have c: "(yr - 1600) div 400 = C + (if yr mod 400 = 0 then 1 else 0)"
    using div_succ [of 400 "yr - 1601"] by (simp only: s400 mod_shift C_def)
  have n: "DayFromYear (yr + 1) =
      365 * yr - 365 * 1969 + (yr - 1968) div 4 - (yr - 1900) div 100 + (yr - 1600) div 400"
    by (simp add: DayFromYear_def)
  have o: "DayFromYear yr = 365 * yr - 365 * 1970 + A - B + C"
    by (simp add: DayFromYear_def A_def B_def C_def)
  consider "yr mod 4 \<noteq> 0" | "yr mod 4 = 0" "yr mod 100 \<noteq> 0"
    | "yr mod 100 = 0" "yr mod 400 \<noteq> 0" | "yr mod 400 = 0"
    by fast
  then show ?thesis
  proof cases
    case 1
    then have "yr mod 100 \<noteq> 0" "yr mod 400 \<noteq> 0" using mod_4_100_400 [of yr] by auto
    then show ?thesis using 1 by (simp add: n o a b c DaysInYear_def)
  next
    case 2
    then have "yr mod 400 \<noteq> 0" using mod_4_100_400 [of yr] by auto
    then show ?thesis using 2 by (simp add: n o a b c DaysInYear_def)
  next
    case 3
    then have "yr mod 4 = 0" using mod_4_100_400 [of yr] by auto
    then show ?thesis using 3 by (simp add: n o a b c DaysInYear_def)
  next
    case 4
    then have "yr mod 100 = 0" "yr mod 4 = 0" using mod_4_100_400 [of yr] by auto
    then show ?thesis using 4 by (simp add: n o a b c DaysInYear_def)
  qed
qed

lemma DaysInYear_range: "365 \<le> DaysInYear yr \<and> DaysInYear yr \<le> 366"
  by (simp add: DaysInYear_def)

lemma DayFromYear_add:
  "DayFromYear yr + 365 * int k \<le> DayFromYear (yr + int k)
   \<and> DayFromYear (yr + int k) \<le> DayFromYear yr + 366 * int k"
proof (induction k)
  case 0
  then show ?case by simp
next
  case (Suc k)
  have "DayFromYear (yr + int (Suc k)) = DayFromYear (yr + int k) + DaysInYear (yr + int k)"
    using DayFromYear_step [of "yr + int k"] by (simp add: algebra_simps)
  then show ?case using Suc DaysInYear_range [of "yr + int k"] by simp
qed

lemma DayFromYear_mono:
  assumes "y1 \<le> y2"
  shows "DayFromYear y1 \<le> DayFromYear y2"
proof -
  obtain k where "y2 = y1 + int k" using assms by (metis zle_iff_zadd)
  then show ?thesis using DayFromYear_add [of y1 k] by simp
qed

lemma YearFromTime_unique:
  assumes "DayFromYear yr \<le> Day t" and "Day t < DayFromYear (yr + 1)"
  shows "YearFromTime t = yr"
proof (rule ccontr)
  assume n: "YearFromTime t \<noteq> yr"
  have b: "DayFromYear (YearFromTime t) \<le> Day t" "Day t < DayFromYear (YearFromTime t + 1)"
    using YearFromTime_bracket [of t] by simp_all
  show False
  proof (cases "YearFromTime t < yr")
    case True
    then have "DayFromYear (YearFromTime t + 1) \<le> DayFromYear yr"
      by (intro DayFromYear_mono) simp
    then show False using b assms by linarith
  next
    case False
    then have "DayFromYear (yr + 1) \<le> DayFromYear (YearFromTime t)"
      using n by (intro DayFromYear_mono) simp
    then show False using b assms by linarith
  qed
qed

lemma DayWithinYear_range:
  "0 \<le> DayWithinYear t \<and> DayWithinYear t < 365 + InLeapYear t
   \<and> (InLeapYear t = 0 \<or> InLeapYear t = 1)"
proof -
  define n where "n = DaysInYear (YearFromTime t)"
  have n: "n = 365 \<or> n = 366" unfolding n_def by (simp add: DaysInYear_def)
  have l: "InLeapYear t = (if n = 366 then 1 else 0)"
    by (simp only: InLeapYear_def n_def)
  have s: "DayFromYear (YearFromTime t + 1) = DayFromYear (YearFromTime t) + n"
    unfolding n_def by (rule DayFromYear_step)
  have b: "DayFromYear (YearFromTime t) \<le> Day t" "Day t < DayFromYear (YearFromTime t) + n"
    using YearFromTime_bracket [of t] by (simp_all only: s)
  have w: "DayWithinYear t = Day t - DayFromYear (YearFromTime t)"
    by (simp only: DayWithinYear_def)
  from n show ?thesis
  proof
    assume "n = 365"
    then show ?thesis using b by (simp add: l w)
  next
    assume "n = 366"
    then show ?thesis using b by (simp add: l w)
  qed
qed

text \<open>
  The day within a non-leap year of the month \<open>M\<close> and date \<open>D\<close> is
  \<open>[0, 31, 59, \<dots>] ! M + D - 1\<close>; the day within the year of an instant is that number
  or, from March on in a leap year, one more.
\<close>

lemma month_date_of_day:
  fixes dw lp :: int
  assumes "0 \<le> dw" "dw < 365 + lp" "lp = 0 \<or> lp = 1"
    and "DayWithinYear t = dw" "InLeapYear t = lp"
  shows "0 \<le> MonthFromTime t \<and> MonthFromTime t \<le> 11 \<and> 1 \<le> DateFromTime t
    \<and> [0, 31, 59, 90, 120, 151, 181, 212, 243, 273, 304, 334, 365] ! nat (MonthFromTime t)
          + DateFromTime t - 1 \<le> dw
    \<and> dw \<le> [0, 31, 59, 90, 120, 151, 181, 212, 243, 273, 304, 334, 365] ! nat (MonthFromTime t)
          + DateFromTime t
    \<and> [0, 31, 59, 90, 120, 151, 181, 212, 243, 273, 304, 334, 365] ! nat (MonthFromTime t)
          + DateFromTime t - 1
        \<le> [0, 31, 59, 90, 120, 151, 181, 212, 243, 273, 304, 334, 365] ! nat (MonthFromTime t + 1)"
proof -
  consider "dw < 31" | "31 \<le> dw" "dw < 59 + lp" | "59 + lp \<le> dw" "dw < 90 + lp"
    | "90 + lp \<le> dw" "dw < 120 + lp" | "120 + lp \<le> dw" "dw < 151 + lp"
    | "151 + lp \<le> dw" "dw < 181 + lp" | "181 + lp \<le> dw" "dw < 212 + lp"
    | "212 + lp \<le> dw" "dw < 243 + lp" | "243 + lp \<le> dw" "dw < 273 + lp"
    | "273 + lp \<le> dw" "dw < 304 + lp" | "304 + lp \<le> dw" "dw < 334 + lp"
    | "334 + lp \<le> dw"
    by linarith
  then show ?thesis
  proof cases
    case 1
    then have "MonthFromTime t = 0" by (simp add: MonthFromTime_def assms(4,5))
    then show ?thesis using 1 assms(1-3) by (simp add: DateFromTime_def assms(4,5))
  next
    case 2
    then have m: "MonthFromTime t = 1" using assms(3) by (auto simp add: MonthFromTime_def assms(4,5))
    show ?thesis using 2 assms(1-3) by (auto simp add: m DateFromTime_def assms(4,5))
  next
    case 3
    then have m: "MonthFromTime t = 2" using assms(3) by (auto simp add: MonthFromTime_def assms(4,5))
    show ?thesis using 3 assms(1-3) by (auto simp add: m DateFromTime_def assms(4,5))
  next
    case 4
    then have m: "MonthFromTime t = 3" using assms(3) by (auto simp add: MonthFromTime_def assms(4,5))
    show ?thesis using 4 assms(1-3) by (auto simp add: m DateFromTime_def assms(4,5))
  next
    case 5
    then have m: "MonthFromTime t = 4" using assms(3) by (auto simp add: MonthFromTime_def assms(4,5))
    show ?thesis using 5 assms(1-3) by (auto simp add: m DateFromTime_def assms(4,5))
  next
    case 6
    then have m: "MonthFromTime t = 5" using assms(3) by (auto simp add: MonthFromTime_def assms(4,5))
    show ?thesis using 6 assms(1-3) by (auto simp add: m DateFromTime_def assms(4,5))
  next
    case 7
    then have m: "MonthFromTime t = 6" using assms(3) by (auto simp add: MonthFromTime_def assms(4,5))
    show ?thesis using 7 assms(1-3) by (auto simp add: m DateFromTime_def assms(4,5))
  next
    case 8
    then have m: "MonthFromTime t = 7" using assms(3) by (auto simp add: MonthFromTime_def assms(4,5))
    show ?thesis using 8 assms(1-3) by (auto simp add: m DateFromTime_def assms(4,5))
  next
    case 9
    then have m: "MonthFromTime t = 8" using assms(3) by (auto simp add: MonthFromTime_def assms(4,5))
    show ?thesis using 9 assms(1-3) by (auto simp add: m DateFromTime_def assms(4,5))
  next
    case 10
    then have m: "MonthFromTime t = 9" using assms(3) by (auto simp add: MonthFromTime_def assms(4,5))
    show ?thesis using 10 assms(1-3) by (auto simp add: m DateFromTime_def assms(4,5))
  next
    case 11
    then have m: "MonthFromTime t = 10" using assms(3) by (auto simp add: MonthFromTime_def assms(4,5))
    show ?thesis using 11 assms(1-3) by (auto simp add: m DateFromTime_def assms(4,5))
  next
    case 12
    then have m: "MonthFromTime t = 11" using assms(3) by (auto simp add: MonthFromTime_def assms(4,5))
    show ?thesis using 12 assms(1-3) by (auto simp add: m DateFromTime_def assms(4,5))
  qed
qed

lemma month_starts_mono:
  assumes "i \<le> j" "j \<le> 12"
  shows "[0, 31, 59, 90, 120, 151, 181, 212, 243, 273, 304, 334, 365::int] ! i
       \<le> [0, 31, 59, 90, 120, 151, 181, 212, 243, 273, 304, 334, 365] ! j"
proof -
  have "sorted [0, 31, 59, 90, 120, 151, 181, 212, 243, 273, 304, 334, 365::int]" by simp
  then show ?thesis using assms by (intro sorted_nth_mono) simp_all
qed

lemma day_within_year_lex:
  assumes "MonthFromTime u < MonthFromTime v
     \<or> (MonthFromTime u = MonthFromTime v \<and> DateFromTime u \<le> DateFromTime v)"
  shows "DayWithinYear u \<le> DayWithinYear v + 1"
proof -
  let ?T = "[0, 31, 59, 90, 120, 151, 181, 212, 243, 273, 304, 334, 365::int]"
  note ru = DayWithinYear_range [of u] and rv = DayWithinYear_range [of v]
  have fu: "0 \<le> MonthFromTime u \<and> MonthFromTime u \<le> 11 \<and> 1 \<le> DateFromTime u
    \<and> ?T ! nat (MonthFromTime u) + DateFromTime u - 1 \<le> DayWithinYear u
    \<and> DayWithinYear u \<le> ?T ! nat (MonthFromTime u) + DateFromTime u
    \<and> ?T ! nat (MonthFromTime u) + DateFromTime u - 1 \<le> ?T ! nat (MonthFromTime u + 1)"
    using ru by (intro month_date_of_day [where lp = "InLeapYear u"]) simp_all
  have fv: "0 \<le> MonthFromTime v \<and> MonthFromTime v \<le> 11 \<and> 1 \<le> DateFromTime v
    \<and> ?T ! nat (MonthFromTime v) + DateFromTime v - 1 \<le> DayWithinYear v
    \<and> DayWithinYear v \<le> ?T ! nat (MonthFromTime v) + DateFromTime v
    \<and> ?T ! nat (MonthFromTime v) + DateFromTime v - 1 \<le> ?T ! nat (MonthFromTime v + 1)"
    using rv by (intro month_date_of_day [where lp = "InLeapYear v"]) simp_all
  have "?T ! nat (MonthFromTime u) + DateFromTime u - 1
      \<le> ?T ! nat (MonthFromTime v) + DateFromTime v - 1"
  proof (cases "MonthFromTime u < MonthFromTime v")
    case True
    have mu: "0 \<le> MonthFromTime u" and mv: "MonthFromTime v \<le> 11"
      using fu fv by blast+
    have "nat (MonthFromTime u + 1) \<le> nat (MonthFromTime v)" using True mu by linarith
    moreover have "nat (MonthFromTime v) \<le> 12" using mv by linarith
    ultimately have "?T ! nat (MonthFromTime u + 1) \<le> ?T ! nat (MonthFromTime v)"
      by (rule month_starts_mono)
    then show ?thesis using fu fv by linarith
  next
    case False
    then have "MonthFromTime u = MonthFromTime v" "DateFromTime u \<le> DateFromTime v"
      using assms by simp_all
    then show ?thesis by simp
  qed
  then show ?thesis using fu fv by linarith
qed

text \<open>
  The year component of \<open>getDurationYMD\<close> is \<open>n\<close> as soon as the two local days are
  more than \<open>366 n + 1\<close> and less than \<open>365 (n + 1) - 1\<close> days apart.
\<close>

lemma duration_year:
  fixes n :: nat
  assumes lo: "366 * int n + 2 \<le> Day (LocalTime tza e) - Day (LocalTime tza s)"
    and hi: "Day (LocalTime tza e) - Day (LocalTime tza s) \<le> 365 * int n + 363"
  shows "fst (getDurationYMD tza (Some s) (Some e)) = Some (int n)"
proof -
  define u v where "u = LocalTime tza e" and "v = LocalTime tza s"
  define ye ys where "ye = YearFromTime u" and "ys = YearFromTime v"
  have be: "DayFromYear ye \<le> Day u" "Day u < DayFromYear (ye + 1)"
    and bs: "DayFromYear ys \<le> Day v" "Day v < DayFromYear (ys + 1)"
    unfolding ye_def ys_def using YearFromTime_bracket [of u] YearFromTime_bracket [of v]
    by simp_all
  have we: "DayWithinYear u = Day u - DayFromYear ye"
    and ws: "DayWithinYear v = Day v - DayFromYear ys"
    by (simp_all add: DayWithinYear_def ye_def ys_def)
  have lo': "366 * int n + 2 \<le> Day u - Day v" and hi': "Day u - Day v \<le> 365 * int n + 363"
    using lo hi by (simp_all add: u_def v_def)
  have k1: "ys + int n \<le> ye"
  proof (rule ccontr)
    assume "\<not> ys + int n \<le> ye"
    then have "DayFromYear (ye + 1) \<le> DayFromYear (ys + int n)"
      by (intro DayFromYear_mono) simp
    then show False using DayFromYear_add [of ys n] be bs lo' by linarith
  qed
  have k2: "ye \<le> ys + int n + 1"
  proof (rule ccontr)
    assume "\<not> ye \<le> ys + int n + 1"
    then have "DayFromYear (ys + 1 + int (Suc n)) \<le> DayFromYear ye"
      by (intro DayFromYear_mono) simp
    then show False using DayFromYear_add [of "ys + 1" "Suc n"] be bs hi' by simp
  qed
  let ?borrow = "MonthFromTime u - MonthFromTime v
      - (if DateFromTime u < DateFromTime v then 1 else 0) < 0"
  have y: "fst (getDurationYMD tza (Some s) (Some e)) =
      Some (ye - ys - (if ?borrow then 1 else 0))"
    using getDurationYMD_fields [OF refl refl refl refl refl refl, of tza s e]
    by (simp add: getFullYear_def getMonth_def getDate_def u_def v_def ye_def ys_def)
  show ?thesis
  proof (cases ?borrow)
    case True
    then have "MonthFromTime u < MonthFromTime v
       \<or> (MonthFromTime u = MonthFromTime v \<and> DateFromTime u \<le> DateFromTime v)"
      by (auto split: if_splits)
    then have d: "DayWithinYear u \<le> DayWithinYear v + 1" by (rule day_within_year_lex)
    have "ye \<noteq> ys + int n"
    proof
      assume "ye = ys + int n"
      then show False using d we ws DayFromYear_add [of ys n] lo' by simp
    qed
    then have "ye = ys + int n + 1" using k1 k2 by linarith
    then show ?thesis using True by (simp add: y)
  next
    case False
    then have "MonthFromTime v < MonthFromTime u
       \<or> (MonthFromTime v = MonthFromTime u \<and> DateFromTime v \<le> DateFromTime u)"
      by (auto split: if_splits)
    then have d: "DayWithinYear v \<le> DayWithinYear u + 1" by (rule day_within_year_lex)
    have "ye \<noteq> ys + int n + 1"
    proof
      assume "ye = ys + int n + 1"
      then have "ye = ys + int (Suc n)" by simp
      then show False using d we ws DayFromYear_add [of ys "Suc n"] hi' by simp
    qed
    then have "ye = ys + int n" using k1 k2 by linarith
    then show ?thesis using False by (simp add: y)
  qed
qed

text \<open>
  With the Moon at 54.5 degrees the first period belongs to Kuja, lasts
  201 570 030 897 or 201 570 030 898 milliseconds and has the year component 6, for
  every birth instant and every offset of local time, as long as the period ends within
  the range of dates.
\<close>

lemma trunc_between:
  fixes x :: real
  assumes "of_int c < x" "x < of_int c + 1"
  shows "trunc (of_int b + x) = b + c \<or> trunc (of_int b + x) = b + c + 1"
proof (cases "0 \<le> of_int b + x")
  case True
  have "\<lfloor>of_int b + x\<rfloor> = b + c"
    by (rule floor_unique) (use assms in simp_all)
  then show ?thesis using True by (simp add: trunc_def)
next
  case False
  have "\<lfloor>- (of_int b + x)\<rfloor> = - (b + c + 1)"
    by (rule floor_unique) (use assms in simp_all)
  then show ?thesis using False by (simp add: trunc_def)
qed

lemma day_difference:
  fixes a c :: int
  assumes "201570030897 \<le> c" "c \<le> 201570030898"
  shows "2332 \<le> Day (a + c) - Day a \<and> Day (a + c) - Day a \<le> 2333"
proof -
  define p q where "p = a div 86400000" and "q = (a + c) div 86400000"
  have p: "86400000 * p \<le> a" "a < 86400000 * p + 86400000"
    unfolding p_def by (rule int_div_bounds, simp)+
  have q: "86400000 * q \<le> a + c" "a + c < 86400000 * q + 86400000"
    unfolding q_def by (rule int_div_bounds, simp)+
  have "2332 \<le> q - p \<and> q - p \<le> 2333" using p q assms by linarith
  then show ?thesis by (simp add: Day_def msPerDay_def p_def q_def)
qed

lemma kuja_balance:
  "201570030897 < 7 * (1 - (54.5 / 13.3333333333 - real_of_int 4)) * msPerYear"
  "7 * (1 - (54.5 / 13.3333333333 - real_of_int 4)) * msPerYear < 201570030897 + 1"
  by (simp_all add: msPerYear_def)

lemma first_period_kuja_six_years:
  assumes lo: "- 8640000000000000 \<le> b" and hi: "b + 201570030898 \<le> 8640000000000000"
  shows "planet (calculateMahadashas tza 54.5 (Some b) ! 0) = Some ''Kuja''
    \<and> (endDate (calculateMahadashas tza 54.5 (Some b) ! 0) = Some (b + 201570030897)
       \<or> endDate (calculateMahadashas tza 54.5 (Some b) ! 0) = Some (b + 201570030898))
    \<and> durationYear (calculateMahadashas tza 54.5 (Some b) ! 0) = Some 6"
proof -
  let ?x = "7 * (1 - (54.5 / 13.3333333333 - real_of_int 4)) * msPerYear"
  let ?item = "calculateMahadashas tza 54.5 (Some b) ! 0"
  have f: "\<lfloor>54.5 / 13.3333333333 :: real\<rfloor> = 4" by simp
  have p: "planet ?item = Some ''Kuja''"
    by (simp only: maha_first_item(1) kuja_tab)
  have r: "\<bar>of_int b + ?x\<bar> \<le> 8640000000000000"
    using lo hi kuja_balance by (simp add: abs_le_iff)
  have "endDate ?item = addTime (Some b) (Some (7 * (1 - (54.5 / 13.3333333333 - real_of_int 4))))"
    by (simp only: maha_first_item(2) kuja_tab) simp
  also have "\<dots> = Some (trunc (of_int b + ?x))"
    using r by (simp add: addTime_def TimeClip_def)
  finally have e: "endDate ?item = Some (trunc (of_int b + ?x))" .
  have t: "trunc (of_int b + ?x) = b + 201570030897 \<or> trunc (of_int b + ?x) = b + 201570030897 + 1"
    using kuja_balance by (intro trunc_between) simp_all
  define c where "c = trunc (of_int b + ?x) - b"
  have c: "201570030897 \<le> c" "c \<le> 201570030898" and ec: "endDate ?item = Some (b + c)"
    using t e by (auto simp add: c_def)
  have d: "2332 \<le> Day (LocalTime tza (b + c)) - Day (LocalTime tza b)
      \<and> Day (LocalTime tza (b + c)) - Day (LocalTime tza b) \<le> 2333"
    using day_difference [OF c, of "b + tza"] by (simp add: LocalTime_def algebra_simps)
  have six: "fst (getDurationYMD tza (Some b) (Some (b + c))) = Some (int 6)"
    using d by (intro duration_year) simp_all
  have "(durationYear ?item, durationMonth ?item, durationDay ?item) =
      getDurationYMD tza (Some b) (Some (b + c))"
    by (simp only: maha_first_item(3) ec)
  then have "durationYear ?item = fst (getDurationYMD tza (Some b) (Some (b + c)))"
    by (metis fst_conv)
  then have y: "durationYear ?item = Some 6" by (simp only: six) simp
  show ?thesis using p y ec c by auto
qed

section \<open>Order and contiguity of the periods\<close>

lemma addTime_mono:
  assumes "addTime (Some a) d = Some b" and "\<forall>yrs. d = Some yrs \<longrightarrow> 0 \<le> yrs"
  shows "a \<le> b"
proof -
  obtain yrs where d: "d = Some yrs" using assms(1) by (cases d) (simp_all add: addTime_def)
  then have y: "0 \<le> yrs * msPerYear" using assms(2) by (simp add: msPerYear_value)
  have b: "b = trunc (of_int a + yrs * msPerYear)"
    using assms(1) d by (simp add: addTime_def TimeClip_def Let_def split: if_splits)
  show ?thesis
  proof (cases "0 \<le> of_int a + yrs * msPerYear")
    case True
    have "a \<le> \<lfloor>of_int a + yrs * msPerYear\<rfloor>" using y by (simp add: le_floor_iff)
    then show ?thesis using True b by (simp add: trunc_def)
  next
    case False
    have "\<lfloor>- (of_int a + yrs * msPerYear)\<rfloor> \<le> - a" using y by (simp add: floor_le_iff)
    then show ?thesis using False b by (simp add: trunc_def)
  qed
qed

lemma years_of_nonneg: "years_of p = Some v \<Longrightarrow> 0 \<le> v"
  using lord_cases [of "the p" v] by (cases p) (auto simp add: years_of_def)

lemma subDuration_nonneg:
  assumes "subDuration t sy = Some yrs" and "\<forall>v. t = Some v \<longrightarrow> 0 \<le> v"
    and "\<forall>v. sy = Some v \<longrightarrow> 0 \<le> v"
  shows "0 \<le> yrs"
proof -
  obtain tv where t: "t = Some tv" using assms(1) by (cases t) (simp_all add: subDuration_def)
  obtain sv where sv: "sy = Some sv"
    using assms(1) t by (cases sy) (simp_all add: subDuration_def)
  have y: "yrs = tv * of_int sv / 120" using assms(1) t sv by (simp add: subDuration_def)
  have "0 \<le> tv" "0 \<le> real_of_int sv" using assms(2,3) t sv by simp_all
  then have "0 \<le> tv * of_int sv" by (rule mult_nonneg_nonneg)
  then have "0 \<le> tv * of_int sv / 120" by (rule divide_nonneg_nonneg) simp
  then show ?thesis by (simp only: y)
qed

lemma mahaLoop_ordered:
  assumes "j < length ns" and "startDate (mahaLoop li cur ns ! j) = Some a"
    and "endDate (mahaLoop li cur ns ! j) = Some b"
  shows "a \<le> b"
proof -
  let ?x = "mahaLoop li cur ns ! j"
  have "addTime (Some a) (map_option of_int (years_of (planet ?x))) = Some b"
    using mahaLoop_item [OF assms(1), of li cur] assms(2,3) by simp
  moreover have "\<forall>yrs. map_option real_of_int (years_of (planet ?x)) = Some yrs \<longrightarrow> 0 \<le> yrs"
    using years_of_nonneg [of "planet ?x"] by auto
  ultimately show ?thesis by (rule addTime_mono)
qed

lemma antarLoop_end:
  "j < length ns \<Longrightarrow>
   endDate (antarLoop tza L T idx cur ns ! j) =
     addTime (startDate (antarLoop tza L T idx cur ns ! j))
       (subDuration (map_option of_int T)
          (years_of (elem_at NAKSHATRA_LORDS (irem (idx + int (ns ! j)) 9))))"
proof (induction ns arbitrary: cur j)
  case Nil
  then show ?case by simp
next
  case (Cons n ns)
  show ?case
  proof (cases j)
    case 0
    then show ?thesis by (simp add: Let_def split_beta)
  next
    case (Suc k)
    then have "k < length ns" using Cons.prems by simp
    from Cons.IH [OF this] show ?thesis using Suc by (simp add: Let_def split_beta)
  qed
qed

lemma pratyantarLoop_end:
  "j < length ns \<Longrightarrow>
   endDate (pratyantarLoop tza G P A idx cur ns ! j) =
     addTime (startDate (pratyantarLoop tza G P A idx cur ns ! j))
       (subDuration A (years_of (elem_at NAKSHATRA_LORDS (irem (idx + int (ns ! j)) 9))))"
proof (induction ns arbitrary: cur j)
  case Nil
  then show ?case by simp
next
  case (Cons n ns)
  show ?case
  proof (cases j)
    case 0
    then show ?thesis by (simp add: Let_def split_beta)
  next
    case (Suc k)
    then have "k < length ns" using Cons.prems by simp
    from Cons.IH [OF this] show ?thesis using Suc by (simp add: Let_def split_beta)
  qed
qed

lemma DASHA_YEARS_nonneg: "DASHA_YEARS L = Some T \<Longrightarrow> 0 \<le> T"
  using lord_cases [of L T] by auto

lemma antar_ordered:
  assumes "i < 9" and "startDate (calculateAntarDashas tza L st ! i) = Some a"
    and "endDate (calculateAntarDashas tza L st ! i) = Some b"
  shows "a \<le> b"
proof -
  let ?d = "subDuration (map_option of_int (DASHA_YEARS L))
      (years_of (elem_at NAKSHATRA_LORDS (irem (indexOf NAKSHATRA_LORDS L + int ([0..<9] ! i)) 9)))"
  have "addTime (Some a) ?d = Some b"
    using antarLoop_end [of i "[0..<9]" tza L "DASHA_YEARS L" "indexOf NAKSHATRA_LORDS L" st]
      assms by (simp add: calculateAntarDashas_def Let_def)
  moreover have "\<forall>yrs. ?d = Some yrs \<longrightarrow> 0 \<le> yrs"
  proof (intro allI impI)
    fix yrs assume "?d = Some yrs"
    then show "0 \<le> yrs"
    proof (rule subDuration_nonneg)
      show "\<forall>v. map_option real_of_int (DASHA_YEARS L) = Some v \<longrightarrow> 0 \<le> v"
        using DASHA_YEARS_nonneg [of L] by auto
      show "\<forall>v. years_of (elem_at NAKSHATRA_LORDS
          (irem (indexOf NAKSHATRA_LORDS L + int ([0..<9] ! i)) 9)) = Some v \<longrightarrow> 0 \<le> v"
        using years_of_nonneg by blast
    qed
  qed
  ultimately show ?thesis by (rule addTime_mono)
qed

lemma pratyantar_ordered:
  assumes "i < 9" and "startDate (calculatePratyantarDashas tza G P st ! i) = Some a"
    and "endDate (calculatePratyantarDashas tza G P st ! i) = Some b"
  shows "a \<le> b"
proof -
  let ?A = "subDuration (map_option of_int (DASHA_YEARS G)) (DASHA_YEARS P)"
  let ?d = "subDuration ?A
      (years_of (elem_at NAKSHATRA_LORDS (irem (indexOf NAKSHATRA_LORDS P + int ([0..<9] ! i)) 9)))"
  have A0: "\<forall>v. ?A = Some v \<longrightarrow> 0 \<le> v"
  proof (intro allI impI)
    fix v assume "?A = Some v"
    then show "0 \<le> v"
    proof (rule subDuration_nonneg)
      show "\<forall>v. map_option real_of_int (DASHA_YEARS G) = Some v \<longrightarrow> 0 \<le> v"
        using DASHA_YEARS_nonneg [of G] by auto
      show "\<forall>v. DASHA_YEARS P = Some v \<longrightarrow> 0 \<le> v"
        using DASHA_YEARS_nonneg [of P] by auto
    qed
  qed
  have "addTime (Some a) ?d = Some b"
    using pratyantarLoop_end [of i "[0..<9]" tza G P ?A "indexOf NAKSHATRA_LORDS P" st]
      assms by (simp add: calculatePratyantarDashas_def Let_def)
  moreover have "\<forall>yrs. ?d = Some yrs \<longrightarrow> 0 \<le> yrs"
  proof (intro allI impI)
    fix yrs assume "?d = Some yrs"
    then show "0 \<le> yrs"
    proof (rule subDuration_nonneg)
      show "\<forall>v. ?A = Some v \<longrightarrow> 0 \<le> v" by (rule A0)
      show "\<forall>v. years_of (elem_at NAKSHATRA_LORDS
          (irem (indexOf NAKSHATRA_LORDS P + int ([0..<9] ! i)) 9)) = Some v \<longrightarrow> 0 \<le> v"
        using years_of_nonneg by blast
    qed
  qed
  ultimately show ?thesis by (rule addTime_mono)
qed

lemma maha_ordered:
  assumes "i < 9" and "startDate (calculateMahadashas tza moonLon birth ! i) = Some a"
    and "endDate (calculateMahadashas tza moonLon birth ! i) = Some b"
  shows "a \<le> b"
proof (cases i)
  case 0
  let ?pos = "moonLon / 13.3333333333"
  let ?fr = "1 - (?pos - of_int \<lfloor>?pos\<rfloor>)"
  let ?d = "map_option (\<lambda>ty. real_of_int ty * ?fr)
      (years_of (elem_at NAKSHATRA_LORDS (irem \<lfloor>?pos\<rfloor> 9)))"
  have fr: "0 \<le> ?fr" by linarith
  have s: "birth = Some a"
    using assms(2) 0 maha_contiguous [of tza moonLon birth] by simp
  have "addTime (Some a) ?d = Some b"
    using assms(3) 0 maha_first_item(2) [of tza moonLon birth] s by simp
  moreover have "\<forall>yrs. ?d = Some yrs \<longrightarrow> 0 \<le> yrs"
    using years_of_nonneg [of "elem_at NAKSHATRA_LORDS (irem \<lfloor>?pos\<rfloor> 9)"] fr by auto
  ultimately show ?thesis by (rule addTime_mono)
next
  case (Suc k)
  then have k: "k < length [1..<9::nat]" using assms(1) by simp
  obtain x li where sh: "calculateMahadashas tza moonLon birth = x # mahaLoop li (endDate x) [1..<9]"
    using calculateMahadashas_shape by blast
  show ?thesis
    using mahaLoop_ordered [OF k, of li "endDate x" a b] assms(2,3) Suc by (simp add: sh)
qed

text \<open>
  Claim C6. In every timeline returned by \<open>calculateMahadashas\<close>,
  \<open>calculateAntarDashas\<close> or \<open>calculatePratyantarDashas\<close> there are nine periods, the
  first period starts at the given instant, and for every \<open>i\<close> from 1 to 8 period \<open>i\<close>
  starts at the date at which period \<open>i - 1\<close> ends; no period ends before it starts
  (whenever both of its dates are valid), so the periods cover one span without gaps or
  overlaps.
\<close>

theorem timelines_contiguous:
  "(length (calculateMahadashas tza moonLon birth) = 9
     \<and> startDate (calculateMahadashas tza moonLon birth ! 0) = birth
     \<and> (\<forall>i. 1 \<le> i \<and> i \<le> 8 \<longrightarrow>
           startDate (calculateMahadashas tza moonLon birth ! i) =
           endDate (calculateMahadashas tza moonLon birth ! (i - 1)))
     \<and> (\<forall>i a b. i < 9 \<and> startDate (calculateMahadashas tza moonLon birth ! i) = Some a
           \<and> endDate (calculateMahadashas tza moonLon birth ! i) = Some b \<longrightarrow> a \<le> b))
   \<and> (length (calculateAntarDashas tza L start) = 9
     \<and> startDate (calculateAntarDashas tza L start ! 0) = start
     \<and> (\<forall>i. 1 \<le> i \<and> i \<le> 8 \<longrightarrow>
           startDate (calculateAntarDashas tza L start ! i) =
           endDate (calculateAntarDashas tza L start ! (i - 1)))
     \<and> (\<forall>i a b. i < 9 \<and> startDate (calculateAntarDashas tza L start ! i) = Some a
           \<and> endDate (calculateAntarDashas tza L start ! i) = Some b \<longrightarrow> a \<le> b))
   \<and> (length (calculatePratyantarDashas tza G P start) = 9
     \<and> startDate (calculatePratyantarDashas tza G P start ! 0) = start
     \<and> (\<forall>i. 1 \<le> i \<and> i \<le> 8 \<longrightarrow>
           startDate (calculatePratyantarDashas tza G P start ! i) =
           endDate (calculatePratyantarDashas tza G P start ! (i - 1)))
     \<and> (\<forall>i a b. i < 9 \<and> startDate (calculatePratyantarDashas tza G P start ! i) = Some a
           \<and> endDate (calculatePratyantarDashas tza G P start ! i) = Some b \<longrightarrow> a \<le> b))"
proof -
  have m: "\<forall>i a b. i < 9 \<and> startDate (calculateMahadashas tza moonLon birth ! i) = Some a
           \<and> endDate (calculateMahadashas tza moonLon birth ! i) = Some b \<longrightarrow> a \<le> b"
    using maha_ordered by blast
  have a: "\<forall>i a b. i < 9 \<and> startDate (calculateAntarDashas tza L start ! i) = Some a
           \<and> endDate (calculateAntarDashas tza L start ! i) = Some b \<longrightarrow> a \<le> b"
    using antar_ordered by blast
  have p: "\<forall>i a b. i < 9 \<and> startDate (calculatePratyantarDashas tza G P start ! i) = Some a
           \<and> endDate (calculatePratyantarDashas tza G P start ! i) = Some b \<longrightarrow> a \<le> b"
    using pratyantar_ordered by blast
  show ?thesis
    using maha_contiguous [of tza moonLon birth] antar_contiguous [of tza L start]
      pratyantar_contiguous [of tza G P start]
      length_calculateMahadashas [of tza moonLon birth]
      length_calculateAntarDashas [of tza L start]
      length_calculatePratyantarDashas [of tza G P start] m a p
    by blast
qed

theorem timelines_contiguous_witness:
  "startDate (calculateAntarDashas 0 ''Ketu'' (Some 0) ! 0) = Some 0
   \<and> startDate (calculateAntarDashas 0 ''Ketu'' (Some 0) ! 1) = Some 12885755400
   \<and> startDate (calculateAntarDashas 0 ''Ketu'' (Some 0) ! 2) = Some 49702199400"
proof -
  note t = timelines_contiguous [of 0 0 None "''Ketu''" "Some 0" "''Ketu''" "''Ketu''"]
  from t have a: "\<forall>i. 1 \<le> i \<and> i \<le> 8 \<longrightarrow>
           startDate (calculateAntarDashas 0 ''Ketu'' (Some 0) ! i) =
           endDate (calculateAntarDashas 0 ''Ketu'' (Some 0) ! (i - 1))"
    by blast
  from t have z: "startDate (calculateAntarDashas 0 ''Ketu'' (Some 0) ! 0) = Some 0"
    by blast
  have b: "- 8640000000000000 \<le> (0::int)" "(0::int) + 7 * 31556952000 \<le> 8640000000000000"
    by simp_all
  have e0: "endDate (calculateAntarDashas 0 ''Ketu'' (Some 0) ! 0) = Some 12885755400"
    using antar_dates_explicit(2) [OF ketu_tab(1) b, of 0 0] by (simp add: ketu_tab(2) upt_9)
  have e1: "endDate (calculateAntarDashas 0 ''Ketu'' (Some 0) ! 1) = Some 49702199400"
    using antar_dates_explicit(2) [OF ketu_tab(1) b, of 1 0] by (simp add: ketu_tab(2) upt_9)
  from a have "startDate (calculateAntarDashas 0 ''Ketu'' (Some 0) ! 1) =
           endDate (calculateAntarDashas 0 ''Ketu'' (Some 0) ! (1 - 1))"
    by simp
  moreover from a have "startDate (calculateAntarDashas 0 ''Ketu'' (Some 0) ! 2) =
           endDate (calculateAntarDashas 0 ''Ketu'' (Some 0) ! (2 - 1))"
    by simp
  ultimately show ?thesis using z e0 e1 by simp
qed

end
